theory Spec2Isabelle
  imports Complex_Main
begin

section \<open>The speech buffer\<close>

text \<open>
  \<^verbatim>\<open>main.py\<close>, line 50: \<^verbatim>\<open>self.speech_buffer = deque(maxlen=10)\<close>.
  A bounded deque is modelled as the list of its elements, oldest first.  Appending to a
  deque whose length has reached \<^verbatim>\<open>maxlen\<close> discards one element from the left; with
  \<^verbatim>\<open>maxlen = 0\<close> the appended element itself is what is discarded.
\<close>

definition maxlen :: nat where
  "maxlen = 10"

definition deque_append :: "nat \<Rightarrow> 'a list \<Rightarrow> 'a \<Rightarrow> 'a list" where
  "deque_append m buf x = (let ys = buf @ [x] in if m < length ys then tl ys else ys)"

text \<open>
  \<^verbatim>\<open>process_speech_queue\<close> (lines 174--178) moves every queued utterance into the buffer,
  in queue order:
  \<^verbatim>\<open>while not self.speech_queue.empty(): self.speech_buffer.append(self.speech_queue.get_nowait())\<close>
\<close>

fun drain :: "'a list \<Rightarrow> 'a list \<Rightarrow> 'a list" where
  "drain buf [] = buf"
| "drain buf (u # queue) = drain (deque_append maxlen buf u) queue"

section \<open>Python values\<close>

text \<open>
  The exceptions the modelled code can meet.  \<^verbatim>\<open>JSONDecodeError\<close> is a subclass of
  \<^verbatim>\<open>ValueError\<close>; \<open>ApiError\<close> stands for whatever a remote call or a COM call raises.
\<close>

datatype py_error =
  ValueError | JSONDecodeError | IndexError | TypeError | AttributeError
  | ComError | ApiError

text \<open>What \<^verbatim>\<open>json.loads\<close> returns.  An object is the list of its members.\<close>

datatype json =
  JNull | JBool bool | JNum rat | JStr string | JArr "json list"
  | JObj "(string \<times> json) list"

text \<open>Python's truth value of such a value, as \<^verbatim>\<open>if content:\<close> tests it.\<close>

fun truthy :: "json \<Rightarrow> bool" where
  "truthy JNull = False"
| "truthy (JBool b) = b"
| "truthy (JNum n) = (n \<noteq> 0)"
| "truthy (JStr s) = (s \<noteq> [])"
| "truthy (JArr xs) = (xs \<noteq> [])"
| "truthy (JObj kvs) = (kvs \<noteq> [])"

text \<open>
  \<^verbatim>\<open>d.get(key, default)\<close> on the members of a dict; \<^verbatim>\<open>d.get(key)\<close> has the default
  \<^verbatim>\<open>None\<close>.
\<close>

definition dict_get :: "(string \<times> json) list \<Rightarrow> string \<Rightarrow> json \<Rightarrow> json" where
  "dict_get kvs k dflt = (case map_of kvs k of None \<Rightarrow> dflt | Some v \<Rightarrow> v)"

section \<open>Python strings\<close>

text \<open>
  A \<^verbatim>\<open>str\<close> is modelled as a \<^typ>\<open>string\<close> whose characters are the code points below 256.
  On these, \<^verbatim>\<open>str.strip()\<close> removes the code points 9--13, 28--32, 133 and 160 from both
  ends; \<^verbatim>\<open>str.splitlines()\<close> breaks at 10, 11, 12, 13, 28, 29, 30 and 133, taking
  \<^verbatim>\<open>\r\n\<close> as one break and returning no empty last line; \<^verbatim>\<open>str.lower()\<close> moves
  65--90 and 192--222 (215 apart) up by 32.
\<close>

definition isspace :: "char \<Rightarrow> bool" where
  "isspace c = (let n = (of_char c :: nat) in
     (9 \<le> n \<and> n \<le> 13) \<or> (28 \<le> n \<and> n \<le> 32) \<or> n = 133 \<or> n = 160)"

definition strip :: "string \<Rightarrow> string" where
  "strip s = rev (dropWhile isspace (rev (dropWhile isspace s)))"

definition is_linebreak :: "char \<Rightarrow> bool" where
  "is_linebreak c = (let n = (of_char c :: nat) in
     (10 \<le> n \<and> n \<le> 13) \<or> (28 \<le> n \<and> n \<le> 30) \<or> n = 133)"

fun splitlines_from :: "string \<Rightarrow> string \<Rightarrow> string list" where
  "splitlines_from cur [] = (if cur = [] then [] else [rev cur])"
| "splitlines_from cur [c] =
     (if is_linebreak c then [rev cur] else [rev (c # cur)])"
| "splitlines_from cur (c # d # cs) =
     (if c = CHR 0x0D \<and> d = CHR 0x0A then rev cur # splitlines_from [] cs
      else if is_linebreak c then rev cur # splitlines_from [] (d # cs)
      else splitlines_from (c # cur) (d # cs))"

definition splitlines :: "string \<Rightarrow> string list" where
  "splitlines s = splitlines_from [] s"

definition lower_char :: "char \<Rightarrow> char" where
  "lower_char c = (let n = (of_char c :: nat) in
     if (65 \<le> n \<and> n \<le> 90) \<or> (192 \<le> n \<and> n \<le> 222 \<and> n \<noteq> 215)
     then char_of (n + 32) else c)"

definition lower :: "string \<Rightarrow> string" where
  "lower s = map lower_char s"

text \<open>\<^verbatim>\<open>sep.join(parts)\<close>.\<close>

fun join :: "string \<Rightarrow> string list \<Rightarrow> string" where
  "join sep [] = []"
| "join sep [p] = p"
| "join sep (p # q # ps) = p @ sep @ join sep (q # ps)"

text \<open>
  \<^verbatim>\<open>s.split()\<close>: the maximal runs of characters that are not white space.  The code does
  not call it; it is here to count the words of a topic label.
\<close>

fun split_from :: "string \<Rightarrow> string \<Rightarrow> string list" where
  "split_from cur [] = (if cur = [] then [] else [rev cur])"
| "split_from cur (c # cs) =
     (if isspace c then (if cur = [] then split_from [] cs else rev cur # split_from [] cs)
      else split_from (c # cur) cs)"

definition split_words :: "string \<Rightarrow> string list" where
  "split_words s = split_from [] s"

text \<open>\<^verbatim>\<open>s.index(c)\<close> and \<^verbatim>\<open>s.rindex(c)\<close> for a one-character \<^verbatim>\<open>c\<close>, and \<^verbatim>\<open>s[i:j]\<close> for
  \<^verbatim>\<open>0 <= i\<close>, \<^verbatim>\<open>0 <= j\<close>.\<close>

fun index :: "string \<Rightarrow> char \<Rightarrow> py_error + nat" where
  "index [] c = Inl ValueError"
| "index (x # xs) c =
     (if x = c then Inr 0
      else (case index xs c of Inl e \<Rightarrow> Inl e | Inr i \<Rightarrow> Inr (Suc i)))"

definition rindex :: "string \<Rightarrow> char \<Rightarrow> py_error + nat" where
  "rindex s c =
     (case index (rev s) c of Inl e \<Rightarrow> Inl e | Inr i \<Rightarrow> Inr (length s - 1 - i))"

definition slice :: "string \<Rightarrow> nat \<Rightarrow> nat \<Rightarrow> string" where
  "slice s i j = take (j - i) (drop i s)"

section \<open>The content generator\<close>

text \<open>
  \<^verbatim>\<open>content_generator.py\<close>.  The language model is outside the program: a call of
  \<^verbatim>\<open>self.model.generate_content(prompt)\<close> followed by \<^verbatim>\<open>response.text\<close> is a value of
  \<^typ>\<open>py_error + string\<close>, the exception raised or the text returned.  \<^verbatim>\<open>json.loads\<close>
  is a parameter \<open>loads\<close>.
\<close>

type_synonym response = "py_error + string"

text \<open>
  \<^verbatim>\<open>_extract_json\<close>, lines 13--22.  The body of the \<^verbatim>\<open>try\<close> first; then the handler, which
  catches \<^verbatim>\<open>ValueError\<close> and \<^verbatim>\<open>JSONDecodeError\<close> only.
\<close>

definition extract_json_try :: "(string \<Rightarrow> py_error + json) \<Rightarrow> string \<Rightarrow> py_error + json" where
  "extract_json_try loads text =
     (case index text (CHR ''{'') of
        Inl e \<Rightarrow> Inl e
      | Inr start_index \<Rightarrow>
          (case rindex text (CHR ''}'') of
             Inl e \<Rightarrow> Inl e
           | Inr r \<Rightarrow>
               (let end_index = r + 1;
                    json_str = slice text start_index end_index
                in loads json_str)))"

definition extract_json ::
  "(string \<Rightarrow> py_error + json) \<Rightarrow> string \<Rightarrow> py_error + json option" where
  "extract_json loads text =
     (case extract_json_try loads text of
        Inr v \<Rightarrow> Inr (Some v)
      | Inl e \<Rightarrow> (if e = ValueError \<or> e = JSONDecodeError then Inr None else Inl e))"

text \<open>
  \<^verbatim>\<open>check_for_deviation\<close>, lines 24--41: the body of the \<^verbatim>\<open>try\<close>, where
  \<^verbatim>\<open>splitlines()[-1]\<close> raises on an empty list, and the function with its
  \<^verbatim>\<open>except Exception: return None\<close>.
\<close>

definition check_for_deviation_try :: "response \<Rightarrow> py_error + string option" where
  "check_for_deviation_try response =
     (case response of
        Inl e \<Rightarrow> Inl e
      | Inr text \<Rightarrow>
          (case splitlines (strip text) of
             [] \<Rightarrow> Inl IndexError
           | l # ls \<Rightarrow>
               (let new_topic = strip (last (l # ls))
                in if lower new_topic \<noteq> ''none'' \<and> 0 < length new_topic
                   then Inr (Some new_topic) else Inr None)))"

definition check_for_deviation :: "response \<Rightarrow> string option" where
  "check_for_deviation response =
     (case check_for_deviation_try response of Inl e \<Rightarrow> None | Inr r \<Rightarrow> r)"

text \<open>
  \<^verbatim>\<open>generate_slide_content\<close>, lines 43--79.  The prompt asks the model for the keys
  \<^verbatim>\<open>title\<close>, \<^verbatim>\<open>points\<close>, \<^verbatim>\<open>image_suggestion\<close>, \<^verbatim>\<open>layout\<close> and \<^verbatim>\<open>chart_data\<close>; the code
  returns the parsed object as it is when it is truthy, and \<^verbatim>\<open>None\<close> otherwise and on
  every exception.
\<close>

definition generate_slide_content ::
  "(string \<Rightarrow> py_error + json) \<Rightarrow> response \<Rightarrow> json option" where
  "generate_slide_content loads response =
     (case response of
        Inl e \<Rightarrow> None
      | Inr text \<Rightarrow>
          (case extract_json loads text of
             Inl e \<Rightarrow> None
           | Inr None \<Rightarrow> None
           | Inr (Some content_json) \<Rightarrow>
               (if truthy content_json then Some content_json else None)))"

section \<open>The presentation\<close>

text \<open>
  PowerPoint is driven through COM (\<^verbatim>\<open>slide_updater.py\<close>).  What the code can see and
  change of it is modelled here: whether the deck is open with a slide show window
  (\<^verbatim>\<open>_get_active_presentation\<close>, lines 25--32), its slides, each the list of its shapes in
  the order of \<^verbatim>\<open>Shapes(1)\<close>, \<^verbatim>\<open>Shapes(2)\<close> and so on, the position of the show, and the
  number of times the deck was saved.  A COM call on an index out of range raises.
\<close>

type_synonym box = "rat \<times> rat \<times> rat \<times> rat"

record text_run =
  run_text :: json
  bullet_visible :: "int option"
  font_name :: "string option"
  font_size :: "int option"
  font_bold :: "int option"
  font_color :: "int option"

datatype shape =
    Textbox box "text_run list" "int option"
  | Picture string box
  | Native string

record powerpoint =
  show_running :: bool
  slides :: "shape list list"
  show_position :: int
  saves :: nat

definition msoTrue :: int where "msoTrue = - 1"
definition ppLayoutBlank :: int where "ppLayoutBlank = 12"
definition ppAlignCenter :: int where "ppAlignCenter = 2"
definition ppAlignLeft :: int where "ppAlignLeft = 1"

text \<open>\<^verbatim>\<open>Slides.Add(index, ppLayoutBlank)\<close>: a slide without shapes becomes slide \<open>index\<close>.\<close>

definition slides_add :: "powerpoint \<Rightarrow> int \<Rightarrow> py_error + powerpoint" where
  "slides_add p i =
     (if 1 \<le> i \<and> i \<le> int (length (slides p)) + 1
      then Inr (p\<lparr>slides := take (nat (i - 1)) (slides p) @ [] # drop (nat (i - 1)) (slides p)\<rparr>)
      else Inl ComError)"

text \<open>\<^verbatim>\<open>Slides(index)\<close>.\<close>

definition slides_item :: "powerpoint \<Rightarrow> int \<Rightarrow> py_error + shape list" where
  "slides_item p i =
     (if 1 \<le> i \<and> i \<le> int (length (slides p)) then Inr (slides p ! nat (i - 1))
      else Inl ComError)"

text \<open>The shapes of slide \<open>i\<close> after the code has worked on its \<^verbatim>\<open>target_slide\<close>.\<close>

definition set_shapes :: "powerpoint \<Rightarrow> int \<Rightarrow> shape list \<Rightarrow> powerpoint" where
  "set_shapes p i shapes = p\<lparr>slides := (slides p)[nat (i - 1) := shapes]\<rparr>"

text \<open>\<^verbatim>\<open>SlideShowWindow.View.GotoSlide(index)\<close> and \<^verbatim>\<open>Save()\<close>.\<close>

definition goto_slide :: "powerpoint \<Rightarrow> int \<Rightarrow> py_error + powerpoint" where
  "goto_slide p i =
     (if 1 \<le> i \<and> i \<le> int (length (slides p)) then Inr (p\<lparr>show_position := i\<rparr>)
      else Inl ComError)"

definition save :: "powerpoint \<Rightarrow> powerpoint" where
  "save p = p\<lparr>saves := Suc (saves p)\<rparr>"

text \<open>\<^verbatim>\<open>Shapes(i).Delete()\<close>, and the loop of line 136:
  \<^verbatim>\<open>for i in range(target_slide.Shapes.Count, 0, -1): target_slide.Shapes(i).Delete()\<close>.
  An exception leaves the shapes as they are at that moment.\<close>

definition shape_delete :: "shape list \<Rightarrow> nat \<Rightarrow> py_error + shape list" where
  "shape_delete shapes i =
     (if 1 \<le> i \<and> i \<le> length shapes then Inr (take (i - 1) shapes @ drop i shapes)
      else Inl ComError)"

fun delete_shapes :: "nat \<Rightarrow> shape list \<Rightarrow> shape list \<times> py_error option" where
  "delete_shapes 0 shapes = (shapes, None)"
| "delete_shapes (Suc n) shapes =
     (case shape_delete shapes (Suc n) of
        Inl e \<Rightarrow> (shapes, Some e)
      | Inr shapes' \<Rightarrow> delete_shapes n shapes')"

section \<open>The style guide and the visual generator\<close>

text \<open>
  The dictionary that \<^verbatim>\<open>ThemeAnalyzer.get_style\<close> returns (\<^verbatim>\<open>theme_analyzer.py\<close>, lines
  119--126): it has these six keys, the sizes are numbers, the colours are the six
  hexadecimal digits of \<^verbatim>\<open>str(RGBColor)\<close>.
\<close>

record style_guide =
  title_font_name :: string
  title_font_size :: rat
  body_font_name :: string
  body_font_size :: rat
  primary_color_rgb :: string
  accent_color_rgb :: string

text \<open>\<^verbatim>\<open>int(x)\<close> on a number rounds towards zero.\<close>

definition py_int :: "rat \<Rightarrow> int" where
  "py_int q = (if 0 \<le> q then \<lfloor>q\<rfloor> else \<lceil>q\<rceil>)"

text \<open>
  \<^verbatim>\<open>int(s, 16)\<close> on a string.  Python strips white space from both ends, reads one
  sign if there is one, then the prefix \<^verbatim>\<open>0x\<close> or \<^verbatim>\<open>0X\<close> if there is one, which a single
  underscore may follow, and then wants hexadecimal digits: at least one, in either
  case, with single underscores allowed between two digits only.  Everything else raises
  \<^verbatim>\<open>ValueError\<close>.  The colours of a style guide are the six digits of
  \<^verbatim>\<open>str(RGBColor)\<close>.
\<close>

definition hex_digit :: "char \<Rightarrow> nat option" where
  "hex_digit c = (let n = (of_char c :: nat) in
     if 48 \<le> n \<and> n \<le> 57 then Some (n - 48)
     else if 65 \<le> n \<and> n \<le> 70 then Some (n - 55)
     else if 97 \<le> n \<and> n \<le> 102 then Some (n - 87)
     else None)"

text \<open>The digits: \<open>acc\<close> is the value read so far, \<open>after_digit\<close> whether the last
  character read was a digit.\<close>

fun hex_value :: "nat \<Rightarrow> bool \<Rightarrow> string \<Rightarrow> nat option" where
  "hex_value acc after_digit [] = (if after_digit then Some acc else None)"
| "hex_value acc after_digit (c # cs) =
     (if c = CHR ''_'' then (if after_digit then hex_value acc False cs else None)
      else (case hex_digit c of
              None \<Rightarrow> None
            | Some d \<Rightarrow> hex_value (16 * acc + d) True cs))"

fun strip_sign :: "string \<Rightarrow> bool \<times> string" where
  "strip_sign (c # cs) =
     (if c = CHR ''-'' then (True, cs) else if c = CHR ''+'' then (False, cs)
      else (False, c # cs))"
| "strip_sign [] = (False, [])"

fun strip_prefix16 :: "string \<Rightarrow> string" where
  "strip_prefix16 (z # x # cs) =
     (if z = CHR ''0'' \<and> (x = CHR ''x'' \<or> x = CHR ''X'')
      then (case cs of [] \<Rightarrow> [] | u # ds \<Rightarrow> if u = CHR ''_'' then ds else u # ds)
      else z # x # cs)"
| "strip_prefix16 cs = cs"

definition int16 :: "string \<Rightarrow> py_error + int" where
  "int16 s =
     (case strip_sign (strip s) of
        (negative, digits) \<Rightarrow>
          (case hex_value 0 False (strip_prefix16 digits) of
             None \<Rightarrow> Inl ValueError
           | Some n \<Rightarrow> Inr (if negative then - int n else int n)))"

text \<open>
  The \<^verbatim>\<open>visual_generator\<close> argument of the slide builder: three methods, each returning
  the path of a file or \<^verbatim>\<open>None\<close> (\<^verbatim>\<open>visual_generator.py\<close>; what they return is decided by
  matplotlib and by two web services).  With it, \<^verbatim>\<open>os.path.exists\<close> and
  \<^verbatim>\<open>os.path.abspath\<close>.
\<close>

record visual_generator =
  create_chart :: "json \<Rightarrow> string option"
  get_icon :: "json \<Rightarrow> string option"
  get_image :: "json \<Rightarrow> string option"
  path_exists :: "string \<Rightarrow> bool"
  abspath :: "string \<Rightarrow> string"

text \<open>Python's truth value of a path or \<^verbatim>\<open>None\<close>.\<close>

definition path_truthy :: "string option \<Rightarrow> bool" where
  "path_truthy visual_path = (case visual_path of None \<Rightarrow> False | Some f \<Rightarrow> f \<noteq> [])"

section \<open>The slide updater\<close>

text \<open>\<^verbatim>\<open>get_current_slide_index\<close>, lines 44--49.\<close>

definition get_current_slide_index :: "powerpoint \<Rightarrow> int option" where
  "get_current_slide_index p = (if show_running p then Some (show_position p) else None)"

text \<open>
  \<^verbatim>\<open>get_text_from_slide\<close>, lines 51--63, reads the deck file with python-pptx, not the
  running show.  The file is absent (\<open>None\<close>), or \<^verbatim>\<open>Presentation(path)\<close> raises, or it
  gives the slides; a shape of the file has no \<^verbatim>\<open>text_frame\<close>, or has one with a text,
  or raises when it is read.
\<close>

datatype file_shape = NoTextFrame | TextFrame string | Unreadable py_error

type_synonym pptx_file = "(py_error + file_shape list list) option"

fun collect_text :: "file_shape list \<Rightarrow> string list \<Rightarrow> py_error + string list" where
  "collect_text [] all_text = Inr all_text"
| "collect_text (NoTextFrame # shapes) all_text = collect_text shapes all_text"
| "collect_text (TextFrame t # shapes) all_text =
     collect_text shapes (if t \<noteq> [] then all_text @ [t] else all_text)"
| "collect_text (Unreadable e # shapes) all_text = Inl e"


definition get_text_from_slide_try :: "py_error + file_shape list list \<Rightarrow> int \<Rightarrow> py_error + string"
  where
  "get_text_from_slide_try opened slide_index =
     (case opened of
        Inl e \<Rightarrow> Inl e
      | Inr prs_slides \<Rightarrow>
          (if \<not> (0 < slide_index \<and> slide_index \<le> int (length prs_slides)) then Inr []
           else (case collect_text (prs_slides ! nat (slide_index - 1)) [] of
                   Inl e \<Rightarrow> Inl e
                 | Inr all_text \<Rightarrow> Inr (join ''\<newline>'' all_text))))"

definition get_text_from_slide :: "pptx_file \<Rightarrow> int \<Rightarrow> string" where
  "get_text_from_slide file slide_index =
     (case file of
        None \<Rightarrow> []
      | Some opened \<Rightarrow>
          (case get_text_from_slide_try opened slide_index of Inl e \<Rightarrow> [] | Inr t \<Rightarrow> t))"

text \<open>
  \<^verbatim>\<open>_add_content_to_slide\<close>, lines 65--117.  First the choice of the visual, lines 70--77,
  on the members of the content object: the chart when \<^verbatim>\<open>chart_data\<close> is truthy, else the
  icon and then the image for a truthy \<^verbatim>\<open>image_suggestion\<close>.
\<close>

definition choose_visual :: "visual_generator \<Rightarrow> (string \<times> json) list \<Rightarrow> string option" where
  "choose_visual vg kvs =
     (if truthy (dict_get kvs ''chart_data'' JNull)
      then create_chart vg (dict_get kvs ''chart_data'' JNull)
      else if truthy (dict_get kvs ''image_suggestion'' JNull)
      then (let visual_path = get_icon vg (dict_get kvs ''image_suggestion'' JNull)
            in if \<not> path_truthy visual_path
               then get_image vg (dict_get kvs ''image_suggestion'' JNull)
               else visual_path)
      else None)"

definition inch_to_points :: "rat \<Rightarrow> rat" where
  "inch_to_points i = i * 72"

definition new_run :: "json \<Rightarrow> text_run" where
  "new_run t = \<lparr>run_text = t, bullet_visible = None, font_name = None, font_size = None,
     font_bold = None, font_color = None\<rparr>"

text \<open>Lines 83--92: the title box; it is on the slide from \<^verbatim>\<open>AddTextbox\<close> on, whatever
  is raised later.\<close>

definition add_title ::
  "(string \<times> json) list \<Rightarrow> style_guide option \<Rightarrow> string option \<Rightarrow> rat \<Rightarrow> shape \<times> py_error option"
  where
  "add_title kvs sg visual_path text_box_width =
     (let b = (inch_to_points (1 / 2), inch_to_points (1 / 5), text_box_width,
               inch_to_points (3 / 2));
          r = new_run (dict_get kvs ''title'' (JStr ''New Topic''))
      in case sg of
           None \<Rightarrow> (Textbox b [r] None, Some AttributeError)
         | Some style \<Rightarrow>
             (let r = r\<lparr>font_name := Some (title_font_name style),
                        font_size := Some (py_int (title_font_size style)),
                        font_bold := Some msoTrue\<rparr>
              in case int16 (primary_color_rgb style) of
                   Inl e \<Rightarrow> (Textbox b [r] None, Some e)
                 | Inr rgb \<Rightarrow>
                     (Textbox b [r\<lparr>font_color := Some rgb\<rparr>]
                        (Some (if \<not> path_truthy visual_path then ppAlignCenter
                               else ppAlignLeft)),
                      None)))"

text \<open>Lines 98--103: what \<^verbatim>\<open>for point_text in content_json.get('points', [])\<close> iterates
  over, and the loop, which appends one bulleted paragraph for each point.\<close>

fun iterate :: "json \<Rightarrow> py_error + json list" where
  "iterate (JArr xs) = Inr xs"
| "iterate (JStr s) = Inr (map (\<lambda>c. JStr [c]) s)"
| "iterate (JObj kvs) = Inr (map (\<lambda>kv. JStr (fst kv)) kvs)"
| "iterate _ = Inl TypeError"

fun add_points :: "style_guide \<Rightarrow> json list \<Rightarrow> text_run list \<Rightarrow> text_run list \<times> py_error option"
  where
  "add_points style [] runs = (runs, None)"
| "add_points style (JStr point_text # points) runs =
     (let r = (new_run (JStr (point_text @ [CHR 0x0D, CHR 0x0A])))
                \<lparr>bullet_visible := Some msoTrue,
                 font_name := Some (body_font_name style),
                 font_size := Some (py_int (body_font_size style))\<rparr>
      in case int16 (accent_color_rgb style) of
           Inl e \<Rightarrow> (runs @ [r], Some e)
         | Inr rgb \<Rightarrow> add_points style points (runs @ [r\<lparr>font_color := Some rgb\<rparr>]))"
| "add_points style (_ # points) runs = (runs, Some TypeError)"

text \<open>Lines 95--104: the body box.\<close>

definition add_body ::
  "(string \<times> json) list \<Rightarrow> style_guide \<Rightarrow> rat \<Rightarrow> shape \<times> py_error option" where
  "add_body kvs style text_box_width =
     (let b = (inch_to_points (1 / 2), inch_to_points (9 / 5), text_box_width, inch_to_points 5)
      in case iterate (dict_get kvs ''points'' (JArr [])) of
           Inl e \<Rightarrow> (Textbox b [] None, Some e)
         | Inr points \<Rightarrow>
             (case add_points style points [] of
                (runs, Some e) \<Rightarrow> (Textbox b runs None, Some e)
              | (runs, None) \<Rightarrow> (Textbox b runs (Some ppAlignLeft), None)))"

text \<open>Lines 107--111: the watermark.\<close>

definition add_logo :: shape where
  "add_logo =
     Textbox (inch_to_points (1 / 5), inch_to_points (36 / 5), inch_to_points 2,
              inch_to_points (1 / 2))
       [(new_run (JStr ''Updated live by Savi.ai''))
          \<lparr>font_size := Some 10, font_color := Some 10526880\<rparr>]
       None"

text \<open>Lines 114--117: the picture.\<close>

definition add_picture :: "visual_generator \<Rightarrow> string option \<Rightarrow> shape list" where
  "add_picture vg visual_path =
     (case visual_path of
        None \<Rightarrow> []
      | Some f \<Rightarrow>
          (if f \<noteq> [] \<and> path_exists vg f
           then [Picture (abspath vg f)
                   (inch_to_points 6, inch_to_points (5 / 2), inch_to_points (7 / 2),
                    inch_to_points (7 / 2))]
           else []))"

text \<open>The whole of it: the shapes of the slide afterwards, and the exception if one was
  raised.  Line 67 reads \<^verbatim>\<open>layout\<close> with \<^verbatim>\<open>content_json.get\<close>, which only a dict has,
  and prints it; nothing else uses it.\<close>

definition add_content_to_slide ::
  "shape list \<Rightarrow> json \<Rightarrow> style_guide option \<Rightarrow> visual_generator \<Rightarrow> shape list \<times> py_error option"
  where
  "add_content_to_slide shapes content_json sg vg =
     (case content_json of
        JObj kvs \<Rightarrow>
          (let visual_path = choose_visual vg kvs;
               text_box_width =
                 (if path_truthy visual_path then inch_to_points (11 / 2) else inch_to_points 9)
           in case add_title kvs sg visual_path text_box_width of
                (title_box, Some e) \<Rightarrow> (shapes @ [title_box], Some e)
              | (title_box, None) \<Rightarrow>
                  (case sg of
                     None \<Rightarrow> (shapes @ [title_box], Some AttributeError)
                   | Some style \<Rightarrow>
                       (case add_body kvs style text_box_width of
                          (body_box, Some e) \<Rightarrow> (shapes @ [title_box, body_box], Some e)
                        | (body_box, None) \<Rightarrow>
                            (shapes @ [title_box, body_box, add_logo]
                               @ add_picture vg visual_path,
                             None))))
      | _ \<Rightarrow> (shapes, Some AttributeError))"

text \<open>
  The two entry points print an error and return when something goes wrong, and return
  nothing in any case; \<open>outcome\<close> is which of the three ends was reached.
\<close>

datatype outcome = Applied | NoActivePresentation | Failed py_error

text \<open>\<^verbatim>\<open>insert_new_slide_after_current\<close>, lines 119--129.\<close>

definition insert_new_slide_after_current ::
  "powerpoint \<Rightarrow> int \<Rightarrow> json \<Rightarrow> style_guide option \<Rightarrow> visual_generator \<Rightarrow> powerpoint \<times> outcome"
  where
  "insert_new_slide_after_current p slide_index content_json sg vg =
     (if \<not> show_running p then (p, NoActivePresentation)
      else
        (let new_slide_index = slide_index + 1
         in case slides_add p new_slide_index of
              Inl e \<Rightarrow> (p, Failed e)
            | Inr p1 \<Rightarrow>
                (case add_content_to_slide [] content_json sg vg of
                   (shapes, Some e) \<Rightarrow> (set_shapes p1 new_slide_index shapes, Failed e)
                 | (shapes, None) \<Rightarrow>
                     (let p2 = set_shapes p1 new_slide_index shapes
                      in case goto_slide p2 new_slide_index of
                           Inl e \<Rightarrow> (p2, Failed e)
                         | Inr p3 \<Rightarrow> (save p3, Applied)))))"

text \<open>\<^verbatim>\<open>update_existing_slide\<close>, lines 131--141.\<close>

definition update_existing_slide ::
  "powerpoint \<Rightarrow> int \<Rightarrow> json \<Rightarrow> style_guide option \<Rightarrow> visual_generator \<Rightarrow> powerpoint \<times> outcome"
  where
  "update_existing_slide p slide_index content_json sg vg =
     (if \<not> show_running p then (p, NoActivePresentation)
      else
        (case slides_item p slide_index of
           Inl e \<Rightarrow> (p, Failed e)
         | Inr target_slide \<Rightarrow>
             (case delete_shapes (length target_slide) target_slide of
                (shapes, Some e) \<Rightarrow> (set_shapes p slide_index shapes, Failed e)
              | (shapes, None) \<Rightarrow>
                  (case add_content_to_slide shapes content_json sg vg of
                     (shapes', Some e) \<Rightarrow> (set_shapes p slide_index shapes', Failed e)
                   | (shapes', None) \<Rightarrow>
                       (let p2 = set_shapes p slide_index shapes'
                        in case goto_slide p2 slide_index of
                             Inl e \<Rightarrow> (p2, Failed e)
                           | Inr p3 \<Rightarrow> (save p3, Applied))))))"

section \<open>The application\<close>

text \<open>
  \<^verbatim>\<open>main.py\<close>.  The fields of \<^verbatim>\<open>Application\<close> that the pipeline uses, lines 44--53, with
  the presentation they act on.  \<open>status\<close> is the list of the calls of \<^verbatim>\<open>_set_status\<close>,
  \<open>checks\<close> the list of the calls of \<^verbatim>\<open>check_for_deviation\<close> with their two arguments,
  \<open>threads\<close> the arguments of the threads that \<^verbatim>\<open>handle_update\<close> has started on
  \<^verbatim>\<open>_generate_and_apply\<close>: topic, slide index, \<^verbatim>\<open>is_update\<close> and action text.
\<close>

type_synonym request = "string \<times> int \<times> bool \<times> string"

record app =
  style_guide :: "style_guide option"
  slide_updater :: bool
  is_running :: bool
  is_checking :: bool
  speech_queue :: "string list"
  speech_buffer :: "string list"
  generated_slide_indices :: "int set"
  ppt :: powerpoint
  status :: "(string \<times> string \<times> bool) list"
  checks :: "(string \<times> string) list"
  threads :: "request list"

definition set_status :: "string \<Rightarrow> string \<Rightarrow> bool \<Rightarrow> app \<Rightarrow> app" where
  "set_status msg color pulse s = s\<lparr>status := status s @ [(msg, color, pulse)]\<rparr>"

text \<open>\<^verbatim>\<open>process_speech_queue\<close>, lines 174--178.\<close>

definition process_speech_queue :: "app \<Rightarrow> app" where
  "process_speech_queue s =
     s\<lparr>speech_buffer := drain (speech_buffer s) (speech_queue s), speech_queue := []\<rparr>"

text \<open>\<^verbatim>\<open>handle_update\<close>, lines 221--227.\<close>

definition handle_update :: "string \<Rightarrow> int \<Rightarrow> bool \<Rightarrow> app \<Rightarrow> app" where
  "handle_update topic slide_index is_update s =
     (let action_text = (if is_update then ''Updating'' else ''Inserting'');
          s = set_status (''New topic '' @ [CHR 0x27] @ topic @ [CHR 0x27]
                            @ ''. Generating content...'') ''#FBBC05'' False s
      in s\<lparr>threads := threads s @ [(topic, slide_index, is_update, action_text)]\<rparr>)"

text \<open>
  \<^verbatim>\<open>run_deviation_check\<close>, lines 188--206: the slide text of lines 193--194, the body of
  the \<^verbatim>\<open>try\<close>, then the whole with its \<^verbatim>\<open>finally\<close>.  \<open>file\<close> is the deck file at that
  time and \<open>judge\<close> the answer of the language model to the prompt made of the slide text
  and the speech.
\<close>

definition slide_text_or_default :: "pptx_file \<Rightarrow> int \<Rightarrow> string" where
  "slide_text_or_default file current_index =
     (let slide_text = get_text_from_slide file current_index
      in if strip slide_text = [] then ''An empty slide.'' else slide_text)"

definition run_deviation_check_try ::
  "pptx_file \<Rightarrow> (string \<Rightarrow> string \<Rightarrow> response) \<Rightarrow> app \<Rightarrow> app" where
  "run_deviation_check_try file judge s =
     (if \<not> slide_updater s \<or> length (speech_buffer s) < 3 then s
      else
        (case get_current_slide_index (ppt s) of
           None \<Rightarrow> s
         | Some current_index \<Rightarrow>
             (if current_index = 0 then s
              else
                (let slide_text = slide_text_or_default file current_index;
                     recent_speech = join '' '' (speech_buffer s);
                     s = set_status ''Analyzing speech vs. slide...'' ''#FBBC05'' False s;
                     new_topic = check_for_deviation (judge slide_text recent_speech);
                     s = s\<lparr>checks := checks s @ [(slide_text, recent_speech)]\<rparr>
                 in case new_topic of
                      None \<Rightarrow> set_status ''Listening for speech...'' ''#4285F4'' True s
                    | Some topic \<Rightarrow>
                        (if topic = []
                         then set_status ''Listening for speech...'' ''#4285F4'' True s
                         else
                           (let s = s\<lparr>speech_buffer := []\<rparr>;
                                is_update_action =
                                  (current_index \<in> generated_slide_indices s)
                            in handle_update topic current_index is_update_action s))))))"

definition run_deviation_check ::
  "pptx_file \<Rightarrow> (string \<Rightarrow> string \<Rightarrow> response) \<Rightarrow> app \<Rightarrow> app" where
  "run_deviation_check file judge s = (run_deviation_check_try file judge s)\<lparr>is_checking := False\<rparr>"

text \<open>
  \<^verbatim>\<open>periodic_check\<close>, lines 180--186, without the timer: when the enhancer runs and no
  check is in flight it sets the flag and starts \<^verbatim>\<open>run_deviation_check\<close> on a thread.  A
  detection cycle is that start followed by the run of the thread to its end.
\<close>

definition detection_cycle ::
  "pptx_file \<Rightarrow> (string \<Rightarrow> string \<Rightarrow> response) \<Rightarrow> app \<Rightarrow> app" where
  "detection_cycle file judge s =
     (if is_running s \<and> \<not> is_checking s
      then run_deviation_check file judge (s\<lparr>is_checking := True\<rparr>)
      else s)"

text \<open>
  \<^verbatim>\<open>_generate_and_apply\<close>, lines 229--243, the body of the thread.  \<open>loads\<close> is
  \<^verbatim>\<open>json.loads\<close> and \<open>reply\<close> the answer of the language model to the prompt made of the
  topic.  Neither method of the slide updater returns anything, so what they print is
  dropped here.
\<close>

definition generate_and_apply ::
  "(string \<Rightarrow> py_error + json) \<Rightarrow> (string \<Rightarrow> response) \<Rightarrow> visual_generator \<Rightarrow> request \<Rightarrow> app \<Rightarrow> app"
  where
  "generate_and_apply loads reply vg req s =
     (case req of (topic, slide_index, is_update, action_text) \<Rightarrow>
        (case generate_slide_content loads (reply topic) of
           None \<Rightarrow> set_status ''Failed to generate content. Listening...'' ''#EA4335'' False s
         | Some content \<Rightarrow>
             (if \<not> truthy content
              then set_status ''Failed to generate content. Listening...'' ''#EA4335'' False s
              else
                (let s = set_status (action_text @ '' slide...'') ''#FBBC05'' False s;
                     s = (if is_update
                          then s\<lparr>ppt := fst (update_existing_slide (ppt s) slide_index content
                                               (style_guide s) vg)\<rparr>
                          else
                            (let new_slide_index = slide_index + 1;
                                 s = s\<lparr>ppt := fst (insert_new_slide_after_current (ppt s)
                                                     slide_index content (style_guide s) vg)\<rparr>
                             in s\<lparr>generated_slide_indices :=
                                    insert new_slide_index (generated_slide_indices s)\<rparr>))
                 in set_status ''Listening for speech...'' ''#4285F4'' True s))))"

section \<open>Threads\<close>

text \<open>
  The threads of \<^verbatim>\<open>main.py\<close> and what orders them.  \<^verbatim>\<open>start_processing\<close> (lines 157--164)
  sets \<^verbatim>\<open>is_running\<close> and calls \<^verbatim>\<open>periodic_check\<close>; \<^verbatim>\<open>stop_processing\<close> (lines 166--172)
  clears \<^verbatim>\<open>is_running\<close>.  \<^verbatim>\<open>periodic_check\<close> (lines 180--186), called again by its timer,
  starts a thread on \<^verbatim>\<open>run_deviation_check\<close> when \<^verbatim>\<open>is_running\<close> holds and \<^verbatim>\<open>is_checking\<close>
  does not, and sets \<^verbatim>\<open>is_checking\<close>; that thread clears the flag when it ends (line 206),
  after it has called \<^verbatim>\<open>handle_update\<close> if it found a topic (line 202).
  \<^verbatim>\<open>handle_manual_generate\<close> calls \<^verbatim>\<open>handle_update\<close> from the button (line 219), once it
  has a topic and the index of the slide on display; the event below is such a call.
  \<^verbatim>\<open>handle_update\<close> starts a thread on \<^verbatim>\<open>_generate_and_apply\<close> (line 227) and tests
  nothing before it does.  Such a thread is first in \<^verbatim>\<open>generate_slide_content\<close>
  (line 231); with a content it goes on into the slide updater and the bookkeeping
  (lines 233--241), without one it ends (line 243).

  The state is the two flags, the number of threads on \<^verbatim>\<open>run_deviation_check\<close> that have
  not ended, and where each thread on \<^verbatim>\<open>_generate_and_apply\<close> is, in the order in which
  they were started.
\<close>

datatype phase = Generating | Mutating | Finished

record threading =
  flag_running :: bool
  flag_checking :: bool
  check_threads :: nat
  apply_threads :: "phase list"

datatype event =
    Start_processing
  | Stop_processing
  | Periodic_check
  | Check_returns bool
  | Manual_generate
  | Content_returns nat bool
  | Apply_returns nat

definition periodic_check :: "threading \<Rightarrow> threading" where
  "periodic_check s =
     (if flag_running s \<and> \<not> flag_checking s
      then s\<lparr>flag_checking := True, check_threads := Suc (check_threads s)\<rparr> else s)"

definition start_apply :: "threading \<Rightarrow> threading" where
  "start_apply s = s\<lparr>apply_threads := apply_threads s @ [Generating]\<rparr>"

text \<open>What an event does, or \<open>None\<close> when it cannot happen: a thread that does not exist
  or is elsewhere in its code cannot return.\<close>

fun fire :: "event \<Rightarrow> threading \<Rightarrow> threading option" where
  "fire Start_processing s = Some (periodic_check (s\<lparr>flag_running := True\<rparr>))"
| "fire Stop_processing s = Some (s\<lparr>flag_running := False\<rparr>)"
| "fire Periodic_check s = Some (periodic_check s)"
| "fire (Check_returns new_topic) s =
     (if check_threads s = 0 then None
      else (let s = (if new_topic then start_apply s else s)
            in Some (s\<lparr>flag_checking := False, check_threads := check_threads s - 1\<rparr>)))"
| "fire Manual_generate s = Some (start_apply s)"
| "fire (Content_returns k content) s =
     (if k < length (apply_threads s) \<and> apply_threads s ! k = Generating
      then Some (s\<lparr>apply_threads :=
                    (apply_threads s)[k := (if content then Mutating else Finished)]\<rparr>)
      else None)"
| "fire (Apply_returns k) s =
     (if k < length (apply_threads s) \<and> apply_threads s ! k = Mutating
      then Some (s\<lparr>apply_threads := (apply_threads s)[k := Finished]\<rparr>)
      else None)"

fun fire_all :: "event list \<Rightarrow> threading \<Rightarrow> threading option" where
  "fire_all [] s = Some s"
| "fire_all (e # es) s = (case fire e s of None \<Rightarrow> None | Some s' \<Rightarrow> fire_all es s')"

text \<open>The application before the enhancer is started (lines 46--48), and the number of
  threads that are in the slide updater.\<close>

definition idle :: threading where
  "idle = \<lparr>flag_running = False, flag_checking = False, check_threads = 0, apply_threads = []\<rparr>"

definition mutating :: "threading \<Rightarrow> nat" where
  "mutating s = length (filter (\<lambda>p. p = Mutating) (apply_threads s))"

section \<open>Concrete inputs\<close>

text \<open>
  A deck of two slides in a running show, the style guide that \<^verbatim>\<open>ThemeAnalyzer\<close> gives
  when the slide masters set nothing, a visual generator that draws every chart and finds
  no icon and no image, and an application that has heard three utterances.  The
  theorems below are evaluated on them.
\<close>

definition example_style :: style_guide where
  "example_style = \<lparr>title_font_name = ''Calibri'', title_font_size = 32,
     body_font_name = ''Calibri'', body_font_size = 18,
     primary_color_rgb = ''000000'', accent_color_rgb = ''595959''\<rparr>"

definition example_deck :: powerpoint where
  "example_deck = \<lparr>show_running = True,
     slides = [[Native ''Title 1''], [Native ''Title 2'', Native ''Content 2'']],
     show_position = 1, saves = 0\<rparr>"

definition example_visuals :: visual_generator where
  "example_visuals = \<lparr>create_chart = (\<lambda>spec. Some ''temp_visuals/temp_chart.png''),
     get_icon = (\<lambda>query. None), get_image = (\<lambda>query. None),
     path_exists = (\<lambda>f. True), abspath = (\<lambda>f. ''C:/savi/'' @ f)\<rparr>"

text \<open>The same generator on a day when the icon service answers, and a content that asks
  for an image and has no chart.\<close>

definition example_visuals_icon :: visual_generator where
  "example_visuals_icon = example_visuals\<lparr>get_icon := (\<lambda>query. Some ''temp_visuals/temp_0.png'')\<rparr>"

definition example_image_members :: "(string \<times> json) list" where
  "example_image_members = [(''title'', JStr ''EV sales''), (''points'', JArr [JStr ''Up 35%'']),
     (''image_suggestion'', JStr ''car''), (''layout'', JStr ''text_left_visual_right''),
     (''chart_data'', JNull)]"

definition example_app :: app where
  "example_app = \<lparr>style_guide = Some example_style, slide_updater = True,
     is_running = True, is_checking = False, speech_queue = [],
     speech_buffer = [''we sold more'', ''cars this year'', ''than ever''],
     generated_slide_indices = {}, ppt = example_deck, status = [], checks = [],
     threads = []\<rparr>"

text \<open>Two answers of the language model to the deviation prompt.\<close>

definition judge_on_topic :: "string \<Rightarrow> string \<Rightarrow> response" where
  "judge_on_topic slide_text speech_text = Inr ''None''"

definition judge_new_topic :: "string \<Rightarrow> string \<Rightarrow> response" where
  "judge_new_topic slide_text speech_text = Inr ''Electric vehicle adoption''"

text \<open>
  An answer of the language model to the content prompt that carries a chart and an image
  suggestion at once, under a layout without a visual, and \<^verbatim>\<open>json.loads\<close> on the one
  document this answer holds; and an answer without any object.
\<close>

definition example_document :: string where
  "example_document = ''{\"title\": \"EV sales\", \"points\": [\"Up 35%\"], \"image_suggestion\": \"car\", \"layout\": \"text_only\", \"chart_data\": {\"type\": \"bar\"}}''"

definition example_members :: "(string \<times> json) list" where
  "example_members = [(''title'', JStr ''EV sales''), (''points'', JArr [JStr ''Up 35%'']),
     (''image_suggestion'', JStr ''car''), (''layout'', JStr ''text_only''),
     (''chart_data'', JObj [(''type'', JStr ''bar'')])]"

definition example_content :: json where
  "example_content = JObj example_members"

definition example_loads :: "string \<Rightarrow> py_error + json" where
  "example_loads json_str =
     (if json_str = example_document then Inr example_content else Inl JSONDecodeError)"

definition reply_both :: "string \<Rightarrow> response" where
  "reply_both topic = Inr (''Here is the slide: '' @ example_document @ '' Enjoy.'')"

definition reply_prose :: "string \<Rightarrow> response" where
  "reply_prose topic = Inr ''I cannot help with that.''"

section \<open>Properties of the speech buffer\<close>

lemma deque_append_last:
  "length buf \<le> m \<Longrightarrow>
     deque_append m buf x = drop (Suc (length buf) - m) (buf @ [x])"
  by (cases buf) (auto simp: deque_append_def Let_def Suc_diff_le)

lemma deque_append_length: "length buf \<le> m \<Longrightarrow> length (deque_append m buf x) \<le> m"
  by (auto simp: deque_append_def Let_def)

lemma drain_last:
  "length buf \<le> maxlen \<Longrightarrow>
     drain buf us = drop (length buf + length us - maxlen) (buf @ us)"
proof (induction us arbitrary: buf)
  case Nil
  then show ?case by simp
next
  case (Cons u us)
  let ?b = "deque_append maxlen buf u"
  have len: "length ?b \<le> maxlen"
    using Cons.prems by (rule deque_append_length)
  have b: "?b = drop (Suc (length buf) - maxlen) (buf @ [u])"
    using Cons.prems by (rule deque_append_last)
  have "drain buf (u # us) = drain ?b us" by simp
  also have "\<dots> = drop (length ?b + length us - maxlen) (?b @ us)"
    using len by (rule Cons.IH)
  also have "\<dots> = drop (length buf + length (u # us) - maxlen) (buf @ u # us)"
  proof (cases "length buf < maxlen")
    case True
    then have "?b = buf @ [u]" by (simp add: b)
    then show ?thesis by simp
  next
    case False
    with Cons.prems have eq: "length buf = maxlen" by simp
    then have "?b = drop 1 (buf @ [u])" by (simp add: b)
    moreover have "length ?b = maxlen"
      using eq by (simp add: b)
    ultimately show ?thesis
      using eq by (simp add: drop_Cons' )
  qed
  finally show ?case .
qed

text \<open>
  Claim C8.  Starting from an empty buffer (or from any buffer the deque can hold), after a
  sequence of more than 10 pushes the buffer holds exactly the last 10 pushed utterances,
  in the order of their arrival; and whatever the number of pushes, the buffer never
  holds more than 10 utterances, the ones it holds being the most recent ones.
\<close>

theorem speech_buffer_keeps_last_ten:
  assumes "length buf \<le> maxlen" and "maxlen < length us"
  shows "drain buf us = drop (length us - 10) us \<and> length (drain buf us) = 10
         \<and> (\<forall>vs. length (drain buf vs) \<le> 10
               \<and> drain buf vs = drop (length (buf @ vs) - 10) (buf @ vs))"
proof -
  have all: "drain buf vs = drop (length (buf @ vs) - 10) (buf @ vs)" for vs
    using drain_last [OF assms(1), of vs] by (simp add: maxlen_def)
  have "drain buf us = drop (length us - 10) us"
    using assms all [of us] by (simp add: maxlen_def)
  moreover from this have "length (drain buf us) = 10"
    using assms(2) by (simp add: maxlen_def)
  moreover have "length (drain buf vs) \<le> 10" for vs
    using assms(1) by (simp add: all maxlen_def)
  ultimately show ?thesis using all by blast
qed

theorem speech_buffer_keeps_last_ten_witness:
  "drain [] [1, 2, 3, 4, 5, 6, 7, 8, 9, 10, 11, 12 :: nat]
     = [3, 4, 5, 6, 7, 8, 9, 10, 11, 12]"
  using speech_buffer_keeps_last_ten
    [of "[]" "[1, 2, 3, 4, 5, 6, 7, 8, 9, 10, 11, 12 :: nat]"]
  by (simp add: maxlen_def)

section \<open>Properties of the deviation detector\<close>

text \<open>
  Claim C7, as the code has it.  When \<^verbatim>\<open>check_for_deviation\<close> returns a topic, the topic is
  not empty, is not the word \<^verbatim>\<open>none\<close> in any mix of upper and lower case, and is the last
  line of the stripped answer, stripped; the code counts no words.  An exception in the
  body of the \<^verbatim>\<open>try\<close> gives no topic, and so does an answer that is empty or whose last
  line is \<^verbatim>\<open>none\<close>.
\<close>

theorem check_for_deviation_topic:
  "(check_for_deviation r = Some t \<longrightarrow>
      t \<noteq> [] \<and> lower t \<noteq> ''none''
      \<and> (\<exists>answer. r = Inr answer \<and> splitlines (strip answer) \<noteq> []
            \<and> t = strip (last (splitlines (strip answer)))))
   \<and> (check_for_deviation_try r = Inl e \<longrightarrow> check_for_deviation r = None)
   \<and> (\<forall>answer. r = Inr answer \<longrightarrow>
         (strip answer = [] \<or> strip (last (splitlines (strip answer))) = []
          \<or> lower (strip (last (splitlines (strip answer)))) = ''none'') \<longrightarrow>
         check_for_deviation r = None)"
proof (intro conjI impI allI)
  assume "check_for_deviation r = Some t"
  then show "t \<noteq> []" and "lower t \<noteq> ''none''"
    and "\<exists>answer. r = Inr answer \<and> splitlines (strip answer) \<noteq> []
            \<and> t = strip (last (splitlines (strip answer)))"
    by (auto simp: check_for_deviation_def check_for_deviation_try_def Let_def
        split: sum.splits list.splits if_splits)
next
  assume "check_for_deviation_try r = Inl e"
  then show "check_for_deviation r = None"
    by (simp add: check_for_deviation_def)
next
  fix answer
  assume "r = Inr answer"
    and "strip answer = [] \<or> strip (last (splitlines (strip answer))) = []
          \<or> lower (strip (last (splitlines (strip answer)))) = ''none''"
  then show "check_for_deviation r = None"
    by (auto simp: check_for_deviation_def check_for_deviation_try_def Let_def splitlines_def
        split: sum.splits list.splits if_splits)
qed

theorem check_for_deviation_topic_witness:
  "check_for_deviation (Inr ''On topic.\<newline>  Electric vehicle adoption '')
      = Some ''Electric vehicle adoption''
   \<and> ''Electric vehicle adoption'' \<noteq> [] \<and> lower ''Electric vehicle adoption'' \<noteq> ''none''
   \<and> check_for_deviation (Inl ApiError) = None
   \<and> check_for_deviation (Inr '' NONE '') = None"
proof -
  have 1: "check_for_deviation (Inr ''On topic.\<newline>  Electric vehicle adoption '')
      = Some ''Electric vehicle adoption''"
    by code_simp
  have 2: "check_for_deviation_try (Inl ApiError) = Inl ApiError"
    by code_simp
  have 3: "lower (strip (last (splitlines (strip '' NONE '')))) = ''none''"
    by code_simp
  show ?thesis
    using 1 2 3
      check_for_deviation_topic [of "Inr ''On topic.\<newline>  Electric vehicle adoption ''"
        "''Electric vehicle adoption''" ApiError]
      check_for_deviation_topic [of "Inl ApiError" "[]" ApiError]
      check_for_deviation_topic [of "Inr '' NONE ''" "[]" ApiError]
    by blast
qed

text \<open>An answer of eleven words is returned as the topic.\<close>

theorem eleven_word_topic:
  "check_for_deviation (Inr ''one two three four five six seven eight nine ten eleven'')
     = Some ''one two three four five six seven eight nine ten eleven''
   \<and> \<not> length (split_words ''one two three four five six seven eight nine ten eleven'') \<le> 10"
  by code_simp

section \<open>Properties of the detection cycle\<close>

lemma check_for_deviation_nonempty: "check_for_deviation r \<noteq> Some []"
  by (auto simp: check_for_deviation_def check_for_deviation_try_def Let_def
      split: sum.splits list.splits)

lemma run_deviation_check_skips:
  assumes "\<not> slide_updater s \<or> length (speech_buffer s) < 3
           \<or> get_current_slide_index (ppt s) = None
           \<or> get_current_slide_index (ppt s) = Some 0"
  shows "run_deviation_check_try file judge s = s"
  using assms by (auto simp: run_deviation_check_try_def)

lemma example_app_ready:
  "slide_updater example_app \<and> 3 \<le> length (speech_buffer example_app)
   \<and> get_current_slide_index (ppt example_app) = Some 1 \<and> (1::int) \<noteq> 0"
  by (simp add: example_app_def example_deck_def get_current_slide_index_def)

lemma topic_found: "check_for_deviation (judge_new_topic a b) = Some ''Electric vehicle adoption''"
  unfolding judge_new_topic_def by code_simp

lemma no_topic_found: "check_for_deviation (judge_on_topic a b) = None"
  unfolding judge_on_topic_def by code_simp

text \<open>
  Claim C9.  With no deck selected, with fewer than three utterances in the buffer, or
  with no slide on display (no running show, or a position that is not truthy),
  \<^verbatim>\<open>run_deviation_check\<close> changes nothing but the flag \<^verbatim>\<open>is_checking\<close>, which its
  \<^verbatim>\<open>finally\<close> clears; the cycle that \<^verbatim>\<open>periodic_check\<close> starts by setting that flag
  therefore leaves the whole state as it was: no call of the detector, no status, no
  change of the buffer, of the tracked slides or of the deck, no thread started.
\<close>

theorem sparse_cycle_is_noop:
  assumes "\<not> slide_updater s \<or> length (speech_buffer s) < 3
           \<or> get_current_slide_index (ppt s) = None
           \<or> get_current_slide_index (ppt s) = Some 0"
  shows "run_deviation_check file judge s = s\<lparr>is_checking := False\<rparr>
         \<and> detection_cycle file judge s = s"
proof -
  have a: "run_deviation_check file judge t = t\<lparr>is_checking := False\<rparr>"
    if "\<not> slide_updater t \<or> length (speech_buffer t) < 3
           \<or> get_current_slide_index (ppt t) = None
           \<or> get_current_slide_index (ppt t) = Some 0" for t
    using that by (simp add: run_deviation_check_def run_deviation_check_skips)
  have "detection_cycle file judge s = s"
  proof (cases "is_running s \<and> \<not> is_checking s")
    case True
    then have "detection_cycle file judge s = (s\<lparr>is_checking := True\<rparr>)\<lparr>is_checking := False\<rparr>"
      using assms by (simp add: detection_cycle_def a)
    with True show ?thesis by simp
  next
    case False
    then show ?thesis by (auto simp add: detection_cycle_def)
  qed
  with a [OF assms] show ?thesis by simp
qed

theorem sparse_cycle_is_noop_witness:
  "length (speech_buffer (example_app\<lparr>speech_buffer := [''we sold more'', ''cars'']\<rparr>)) < 3
   \<and> detection_cycle None judge_new_topic
        (example_app\<lparr>speech_buffer := [''we sold more'', ''cars'']\<rparr>)
       = example_app\<lparr>speech_buffer := [''we sold more'', ''cars'']\<rparr>"
proof -
  have h: "length (speech_buffer (example_app\<lparr>speech_buffer := [''we sold more'', ''cars'']\<rparr>))
      < 3"
    by simp
  with sparse_cycle_is_noop
    [of "example_app\<lparr>speech_buffer := [''we sold more'', ''cars'']\<rparr>" None judge_new_topic]
  show ?thesis by blast
qed

text \<open>
  Claim C2, as the code has it.  A detection cycle that reaches the detector hands it the
  buffer joined by single spaces, and afterwards the buffer is empty when the detector
  returned a topic and is what it was when the detector returned none (lines 198--204: the
  buffer is cleared in the branch of a new topic only).  This is the cycle run on its
  own; an utterance pushed while it runs is not in the model.
\<close>

theorem deviation_check_clears_on_topic:
  assumes "slide_updater s" and "3 \<le> length (speech_buffer s)"
    and "get_current_slide_index (ppt s) = Some i" and "i \<noteq> 0"
  shows "checks (run_deviation_check file judge s)
           = checks s @ [(slide_text_or_default file i, join '' '' (speech_buffer s))]
         \<and> speech_buffer (run_deviation_check file judge s)
           = (if check_for_deviation
                   (judge (slide_text_or_default file i) (join '' '' (speech_buffer s))) = None
              then speech_buffer s else [])"
  using assms check_for_deviation_nonempty
    [of "judge (slide_text_or_default file i) (join '' '' (speech_buffer s))"]
  by (auto simp: run_deviation_check_def run_deviation_check_try_def Let_def set_status_def
      handle_update_def split: option.splits)

theorem deviation_check_clears_on_topic_witness:
  "speech_buffer (run_deviation_check None judge_new_topic example_app) = []
   \<and> speech_buffer (run_deviation_check None judge_on_topic example_app)
       = speech_buffer example_app"
  using example_app_ready topic_found no_topic_found
    deviation_check_clears_on_topic [of example_app 1 None judge_new_topic]
    deviation_check_clears_on_topic [of example_app 1 None judge_on_topic]
  by simp

text \<open>A cycle that reads three utterances and finds no new topic leaves them in the
  buffer: joining the buffer again gives the same text, not the empty one.\<close>

theorem buffer_kept_without_deviation:
  "checks (run_deviation_check None judge_on_topic example_app)
     = [(''An empty slide.'', ''we sold more cars this year than ever'')]
   \<and> speech_buffer (run_deviation_check None judge_on_topic example_app)
     = [''we sold more'', ''cars this year'', ''than ever'']
   \<and> join '' '' (speech_buffer (run_deviation_check None judge_on_topic example_app)) \<noteq> []"
  by (simp add: run_deviation_check_def run_deviation_check_try_def example_app_def
      example_deck_def get_current_slide_index_def slide_text_or_default_def
      get_text_from_slide_def strip_def no_topic_found set_status_def Let_def)

section \<open>Properties of content generation\<close>

lemma index_absent: "c \<notin> set s \<Longrightarrow> index s c = Inl ValueError"
  by (induction s) auto

lemma rindex_absent: "c \<notin> set s \<Longrightarrow> rindex s c = Inl ValueError"
  by (simp add: rindex_def index_absent)

lemma index_error: "index s c = Inl e \<Longrightarrow> e = ValueError"
  by (induction s arbitrary: e) (auto split: if_splits sum.splits)

lemma extract_json_try_no_brace:
  "CHR ''{'' \<notin> set t \<or> CHR ''}'' \<notin> set t \<Longrightarrow> extract_json_try loads t = Inl ValueError"
  by (auto simp: extract_json_try_def index_absent rindex_absent dest: index_error
      split: sum.splits)

lemma generate_none:
  "extract_json_try loads t = Inl e \<Longrightarrow> generate_slide_content loads (Inr t) = None"
  by (simp add: generate_slide_content_def extract_json_def)

lemma generate_some:
  "generate_slide_content loads r = Some c \<Longrightarrow>
     truthy c \<and> (\<exists>t. r = Inr t \<and> extract_json_try loads t = Inr c)"
  by (auto simp: generate_slide_content_def extract_json_def
      split: sum.splits option.splits if_splits)

lemma reply_prose_none: "generate_slide_content example_loads (reply_prose topic) = None"
proof -
  have "CHR ''{'' \<notin> set ''I cannot help with that.''" by simp
  then show ?thesis
    unfolding reply_prose_def
    using extract_json_try_no_brace generate_none by blast
qed

lemma reply_both_content:
  "generate_slide_content example_loads (reply_both topic) = Some example_content"
  by (simp add: generate_slide_content_def reply_both_def extract_json_def extract_json_try_def
      example_document_def rindex_def slice_def example_loads_def example_content_def
      example_members_def)

text \<open>
  Claim C4.  When \<^verbatim>\<open>generate_slide_content\<close> returns \<^verbatim>\<open>None\<close>, the thread of
  \<^verbatim>\<open>_generate_and_apply\<close> does one thing: it sets the status
  \<^verbatim>\<open>Failed to generate content. Listening...\<close>.  The deck (slides, position of the show,
  number of saves) and the tracked slides are what they were.  And
  \<^verbatim>\<open>generate_slide_content\<close> does return \<^verbatim>\<open>None\<close> when the call of the model raises, when
  the answer has no opening or no closing brace, and when \<^verbatim>\<open>_extract_json\<close> fails on it in
  any other way.
\<close>

theorem failed_generation_changes_nothing:
  "(generate_slide_content loads (reply topic) = None \<longrightarrow>
      generate_and_apply loads reply vg (topic, i, u, a) s
        = set_status ''Failed to generate content. Listening...'' ''#EA4335'' False s
      \<and> ppt (generate_and_apply loads reply vg (topic, i, u, a) s) = ppt s
      \<and> generated_slide_indices (generate_and_apply loads reply vg (topic, i, u, a) s)
          = generated_slide_indices s
      \<and> status (generate_and_apply loads reply vg (topic, i, u, a) s)
          = status s @ [(''Failed to generate content. Listening...'', ''#EA4335'', False)])
   \<and> generate_slide_content loads (Inl e) = None
   \<and> (CHR ''{'' \<notin> set t \<or> CHR ''}'' \<notin> set t \<or> extract_json_try loads t = Inl e' \<longrightarrow>
        generate_slide_content loads (Inr t) = None)"
proof (intro conjI impI)
  assume "generate_slide_content loads (reply topic) = None"
  then show g: "generate_and_apply loads reply vg (topic, i, u, a) s
        = set_status ''Failed to generate content. Listening...'' ''#EA4335'' False s"
    by (simp add: generate_and_apply_def)
  show "ppt (generate_and_apply loads reply vg (topic, i, u, a) s) = ppt s"
    and "generated_slide_indices (generate_and_apply loads reply vg (topic, i, u, a) s)
          = generated_slide_indices s"
    and "status (generate_and_apply loads reply vg (topic, i, u, a) s)
          = status s @ [(''Failed to generate content. Listening...'', ''#EA4335'', False)]"
    by (simp_all add: g set_status_def)
next
  show "generate_slide_content loads (Inl e) = None"
    by (simp add: generate_slide_content_def)
next
  assume "CHR ''{'' \<notin> set t \<or> CHR ''}'' \<notin> set t \<or> extract_json_try loads t = Inl e'"
  then show "generate_slide_content loads (Inr t) = None"
    using extract_json_try_no_brace [of t loads] generate_none [of loads t] by blast
qed

theorem failed_generation_changes_nothing_witness:
  "generate_slide_content example_loads (reply_prose ''EV sales'') = None
   \<and> ppt (generate_and_apply example_loads reply_prose example_visuals
            (''EV sales'', 1, False, ''Inserting'') example_app) = example_deck
   \<and> generated_slide_indices (generate_and_apply example_loads reply_prose example_visuals
            (''EV sales'', 1, False, ''Inserting'') example_app) = {}
   \<and> status (generate_and_apply example_loads reply_prose example_visuals
            (''EV sales'', 1, False, ''Inserting'') example_app)
       = [(''Failed to generate content. Listening...'', ''#EA4335'', False)]"
proof -
  have fields: "ppt example_app = example_deck" "generated_slide_indices example_app = {}"
    "status example_app = []"
    by (simp_all add: example_app_def)
  have none: "generate_slide_content example_loads (reply_prose ''EV sales'') = None"
    by (rule reply_prose_none)
  with failed_generation_changes_nothing [of example_loads reply_prose "''EV sales''"
      example_visuals 1 False "''Inserting''" example_app ApiError "[]" ApiError]
  have "ppt (generate_and_apply example_loads reply_prose example_visuals
            (''EV sales'', 1, False, ''Inserting'') example_app) = ppt example_app
   \<and> generated_slide_indices (generate_and_apply example_loads reply_prose example_visuals
            (''EV sales'', 1, False, ''Inserting'') example_app)
       = generated_slide_indices example_app
   \<and> status (generate_and_apply example_loads reply_prose example_visuals
            (''EV sales'', 1, False, ''Inserting'') example_app)
       = status example_app @ [(''Failed to generate content. Listening...'', ''#EA4335'', False)]"
    by blast
  with none show ?thesis by (simp add: fields)
qed

section \<open>Properties of the update path\<close>

lemma strip_hex: "strip ''595959'' = ''595959''" "strip ''000000'' = ''000000''"
  by (simp_all add: strip_def isspace_def)

lemma example_colours: "int16 ''000000'' = Inr 0" "int16 ''595959'' = Inr 5855577"
  by (simp_all add: int16_def strip_hex hex_digit_def)

lemma delete_shapes_all: "n \<le> length xs \<Longrightarrow> delete_shapes n xs = (drop n xs, None)"
proof (induction n arbitrary: xs)
  case 0
  then show ?case by simp
next
  case (Suc n)
  then have "delete_shapes (Suc n) xs = delete_shapes n (take n xs @ drop (Suc n) xs)"
    by (simp add: shape_delete_def)
  also have "\<dots> = (drop n (take n xs @ drop (Suc n) xs), None)"
    using Suc.prems by (intro Suc.IH) simp
  also have "drop n (take n xs @ drop (Suc n) xs) = drop (Suc n) xs"
    using Suc.prems by simp
  finally show ?case .
qed

lemma update_in_range:
  assumes "show_running p" and "1 \<le> i" and "i \<le> int (length (slides p))"
  shows "update_existing_slide p i c sg vg =
     (case add_content_to_slide [] c sg vg of
        (sh, Some e) \<Rightarrow> (set_shapes p i sh, Failed e)
      | (sh, None) \<Rightarrow> (save ((set_shapes p i sh)\<lparr>show_position := i\<rparr>), Applied))"
  using assms
  by (simp add: update_existing_slide_def slides_item_def delete_shapes_all goto_slide_def
      set_shapes_def split: prod.splits option.splits)

lemma update_out_of_range:
  assumes "\<not> (show_running p \<and> 1 \<le> i \<and> i \<le> int (length (slides p)))"
  shows "update_existing_slide p i c sg vg
     = (p, if show_running p then Failed ComError else NoActivePresentation)"
  using assms by (auto simp: update_existing_slide_def slides_item_def)

lemma update_slides:
  assumes "show_running p" and "1 \<le> i" and "i \<le> int (length (slides p))"
  shows "slides (fst (update_existing_slide p i c sg vg))
           = (slides p)[nat (i - 1) := fst (add_content_to_slide [] c sg vg)]"
    and "show_running (fst (update_existing_slide p i c sg vg))"
    and "snd (update_existing_slide p i c sg vg)
           = (case snd (add_content_to_slide [] c sg vg) of
                Some e \<Rightarrow> Failed e | None \<Rightarrow> Applied)"
  using assms
  by (auto simp: update_in_range set_shapes_def save_def split: prod.splits option.splits)

lemma add_points_strings:
  assumes "int16 (accent_color_rgb style) = Inr rgb"
  shows "add_points style (map JStr pts) runs =
     (runs @ map (\<lambda>t. \<lparr>run_text = JStr (t @ [CHR 0x0D, CHR 0x0A]),
                          bullet_visible = Some (- 1),
                          font_name = Some (body_font_name style),
                          font_size = Some (py_int (body_font_size style)),
                          font_bold = None, font_color = Some rgb\<rparr>) pts, None)"
  using assms
  by (induction pts arbitrary: runs) (simp_all add: new_run_def msoTrue_def)

lemma layout_of_content:
  assumes "int16 (primary_color_rgb style) = Inr rgb1"
    and "int16 (accent_color_rgb style) = Inr rgb2"
    and "dict_get kvs ''points'' (JArr []) = JArr (map JStr pts)"
  shows "add_content_to_slide [] (JObj kvs) (Some style) vg =
     ([Textbox (36, 72 / 5, if path_truthy (choose_visual vg kvs) then 396 else 648, 108)
         [\<lparr>run_text = dict_get kvs ''title'' (JStr ''New Topic''), bullet_visible = None,
            font_name = Some (title_font_name style),
            font_size = Some (py_int (title_font_size style)),
            font_bold = Some (- 1), font_color = Some rgb1\<rparr>]
         (Some (if path_truthy (choose_visual vg kvs) then 1 else 2)),
       Textbox (36, 648 / 5, if path_truthy (choose_visual vg kvs) then 396 else 648, 360)
         (map (\<lambda>t. \<lparr>run_text = JStr (t @ [CHR 0x0D, CHR 0x0A]),
                      bullet_visible = Some (- 1),
                      font_name = Some (body_font_name style),
                      font_size = Some (py_int (body_font_size style)),
                      font_bold = None, font_color = Some rgb2\<rparr>) pts)
         (Some 1),
       Textbox (72 / 5, 2592 / 5, 144, 36)
         [\<lparr>run_text = JStr ''Updated live by Savi.ai'', bullet_visible = None,
            font_name = None, font_size = Some 10, font_bold = None,
            font_color = Some 10526880\<rparr>]
         None]
      @ (case choose_visual vg kvs of
           None \<Rightarrow> []
         | Some f \<Rightarrow>
             if f \<noteq> [] \<and> path_exists vg f
             then [Picture (abspath vg f) (432, 180, 252, 252)] else []),
      None)"
  using assms
  by (simp add: add_content_to_slide_def add_title_def add_body_def add_logo_def
      add_picture_def add_points_strings new_run_def inch_to_points_def msoTrue_def
      ppAlignCenter_def ppAlignLeft_def Let_def split: option.splits)


lemma same_visual_same_layout:
  assumes "\<forall>kvs. c = JObj kvs \<longrightarrow>
             choose_visual vg1 kvs = choose_visual vg2 kvs
             \<and> add_picture vg1 (choose_visual vg1 kvs) = add_picture vg2 (choose_visual vg2 kvs)"
  shows "add_content_to_slide [] c sg vg1 = add_content_to_slide [] c sg vg2"
proof (cases c)
  case (JObj kvs)
  with assms have v: "choose_visual vg1 kvs = choose_visual vg2 kvs"
    and "add_picture vg1 (choose_visual vg1 kvs) = add_picture vg2 (choose_visual vg2 kvs)"
    by blast+
  then have "add_picture vg1 (choose_visual vg2 kvs) = add_picture vg2 (choose_visual vg2 kvs)"
    by simp
  with v show ?thesis
    by (simp add: JObj add_content_to_slide_def Let_def split: prod.splits option.splits)
qed (simp_all add: add_content_to_slide_def)

text \<open>
  Claim C5, as the code has it.  An update deletes every shape of the slide and lays the
  content out afresh, so after a second update of a slide of a running show the slide
  holds the shapes that \<^verbatim>\<open>_add_content_to_slide\<close> lays out on an empty slide from the
  content and from what the visual generator answers during that second update, and
  nothing of what the first update left.  The two updates leave the same slides and end
  the same way when the visual is resolved the same way in both: the same path chosen,
  the same picture added.  \<open>vg1\<close> is the visual generator as it answers during the first
  update and \<open>vg2\<close> as it answers during the second.  What is laid out, for a style guide
  whose colours parse and points that are strings: the title box, the body box with one
  bulleted paragraph for each point, the watermark, and the picture when a visual was
  found and its file exists; with a visual the text boxes are 396 points wide and the
  title is aligned left, without one they are 648 points wide and the title is centred.
\<close>

theorem update_lays_out_afresh:
  "(show_running p \<and> 1 \<le> i \<and> i \<le> int (length (slides p)) \<longrightarrow>
      slides (fst (update_existing_slide (fst (update_existing_slide p i c sg vg1)) i c sg vg2))
        = (slides p)[nat (i - 1) := fst (add_content_to_slide [] c sg vg2)]
      \<and> slides (fst (update_existing_slide (fst (update_existing_slide p i c sg vg1)) i c sg
                       vg2)) ! nat (i - 1)
        = fst (add_content_to_slide [] c sg vg2))
   \<and> ((\<forall>kvs. c = JObj kvs \<longrightarrow>
          choose_visual vg1 kvs = choose_visual vg2 kvs
          \<and> add_picture vg1 (choose_visual vg1 kvs) = add_picture vg2 (choose_visual vg2 kvs)) \<longrightarrow>
        slides (fst (update_existing_slide (fst (update_existing_slide p i c sg vg1)) i c sg vg2))
          = slides (fst (update_existing_slide p i c sg vg1))
        \<and> snd (update_existing_slide (fst (update_existing_slide p i c sg vg1)) i c sg vg2)
          = snd (update_existing_slide p i c sg vg1))
   \<and> (int16 (primary_color_rgb style) = Inr rgb1 \<and> int16 (accent_color_rgb style) = Inr rgb2
        \<and> dict_get kvs ''points'' (JArr []) = JArr (map JStr pts) \<longrightarrow>
        add_content_to_slide [] (JObj kvs) (Some style) vg =
          ([Textbox (36, 72 / 5, if path_truthy (choose_visual vg kvs) then 396 else 648, 108)
              [\<lparr>run_text = dict_get kvs ''title'' (JStr ''New Topic''), bullet_visible = None,
                 font_name = Some (title_font_name style),
                 font_size = Some (py_int (title_font_size style)),
                 font_bold = Some (- 1), font_color = Some rgb1\<rparr>]
              (Some (if path_truthy (choose_visual vg kvs) then 1 else 2)),
            Textbox (36, 648 / 5, if path_truthy (choose_visual vg kvs) then 396 else 648, 360)
              (map (\<lambda>t. \<lparr>run_text = JStr (t @ [CHR 0x0D, CHR 0x0A]),
                           bullet_visible = Some (- 1),
                           font_name = Some (body_font_name style),
                           font_size = Some (py_int (body_font_size style)),
                           font_bold = None, font_color = Some rgb2\<rparr>) pts)
              (Some 1),
            Textbox (72 / 5, 2592 / 5, 144, 36)
              [\<lparr>run_text = JStr ''Updated live by Savi.ai'', bullet_visible = None,
                 font_name = None, font_size = Some 10, font_bold = None,
                 font_color = Some 10526880\<rparr>]
              None]
           @ (case choose_visual vg kvs of
                None \<Rightarrow> []
              | Some f \<Rightarrow>
                  if f \<noteq> [] \<and> path_exists vg f
                  then [Picture (abspath vg f) (432, 180, 252, 252)] else []),
           None))"
proof (intro conjI impI)
  assume r: "show_running p \<and> 1 \<le> i \<and> i \<le> int (length (slides p))"
  let ?p1 = "fst (update_existing_slide p i c sg vg1)"
  from r have s1: "slides ?p1 = (slides p)[nat (i - 1) := fst (add_content_to_slide [] c sg vg1)]"
    and r1: "show_running ?p1"
    by (simp_all add: update_slides)
  from r s1 have l1: "i \<le> int (length (slides ?p1))" by simp
  from r r1 l1 have "slides (fst (update_existing_slide ?p1 i c sg vg2))
      = (slides ?p1)[nat (i - 1) := fst (add_content_to_slide [] c sg vg2)]"
    by (simp add: update_slides)
  then show 2: "slides (fst (update_existing_slide ?p1 i c sg vg2))
      = (slides p)[nat (i - 1) := fst (add_content_to_slide [] c sg vg2)]"
    by (simp add: s1)
  from r have "nat (i - 1) < length (slides p)" by linarith
  then show "slides (fst (update_existing_slide ?p1 i c sg vg2)) ! nat (i - 1)
      = fst (add_content_to_slide [] c sg vg2)"
    by (simp add: 2)
next
  assume "\<forall>kvs. c = JObj kvs \<longrightarrow>
          choose_visual vg1 kvs = choose_visual vg2 kvs
          \<and> add_picture vg1 (choose_visual vg1 kvs) = add_picture vg2 (choose_visual vg2 kvs)"
  then have same: "add_content_to_slide [] c sg vg1 = add_content_to_slide [] c sg vg2"
    by (rule same_visual_same_layout)
  let ?p1 = "fst (update_existing_slide p i c sg vg1)"
  have "slides (fst (update_existing_slide ?p1 i c sg vg2)) = slides ?p1
        \<and> snd (update_existing_slide ?p1 i c sg vg2) = snd (update_existing_slide p i c sg vg1)"
  proof (cases "show_running p \<and> 1 \<le> i \<and> i \<le> int (length (slides p))")
    case False
    then show ?thesis by (auto simp: update_out_of_range)
  next
    case True
    then have s1: "slides ?p1 = (slides p)[nat (i - 1) := fst (add_content_to_slide [] c sg vg1)]"
      and r1: "show_running ?p1"
      by (simp_all add: update_slides)
    from True s1 have l1: "i \<le> int (length (slides ?p1))" by simp
    from True r1 l1 have "slides (fst (update_existing_slide ?p1 i c sg vg2))
        = (slides ?p1)[nat (i - 1) := fst (add_content_to_slide [] c sg vg2)]"
      and "snd (update_existing_slide ?p1 i c sg vg2)
        = (case snd (add_content_to_slide [] c sg vg2) of Some e \<Rightarrow> Failed e | None \<Rightarrow> Applied)"
      by (simp_all add: update_slides)
    moreover from True have "snd (update_existing_slide p i c sg vg1)
        = (case snd (add_content_to_slide [] c sg vg1) of Some e \<Rightarrow> Failed e | None \<Rightarrow> Applied)"
      by (simp add: update_slides)
    ultimately show ?thesis by (simp add: s1 same)
  qed
  then show "slides (fst (update_existing_slide ?p1 i c sg vg2)) = slides ?p1"
    and "snd (update_existing_slide ?p1 i c sg vg2) = snd (update_existing_slide p i c sg vg1)"
    by simp_all
next
  assume "int16 (primary_color_rgb style) = Inr rgb1 \<and> int16 (accent_color_rgb style) = Inr rgb2
        \<and> dict_get kvs ''points'' (JArr []) = JArr (map JStr pts)"
  then show "add_content_to_slide [] (JObj kvs) (Some style) vg =
          ([Textbox (36, 72 / 5, if path_truthy (choose_visual vg kvs) then 396 else 648, 108)
              [\<lparr>run_text = dict_get kvs ''title'' (JStr ''New Topic''), bullet_visible = None,
                 font_name = Some (title_font_name style),
                 font_size = Some (py_int (title_font_size style)),
                 font_bold = Some (- 1), font_color = Some rgb1\<rparr>]
              (Some (if path_truthy (choose_visual vg kvs) then 1 else 2)),
            Textbox (36, 648 / 5, if path_truthy (choose_visual vg kvs) then 396 else 648, 360)
              (map (\<lambda>t. \<lparr>run_text = JStr (t @ [CHR 0x0D, CHR 0x0A]),
                           bullet_visible = Some (- 1),
                           font_name = Some (body_font_name style),
                           font_size = Some (py_int (body_font_size style)),
                           font_bold = None, font_color = Some rgb2\<rparr>) pts)
              (Some 1),
            Textbox (72 / 5, 2592 / 5, 144, 36)
              [\<lparr>run_text = JStr ''Updated live by Savi.ai'', bullet_visible = None,
                 font_name = None, font_size = Some 10, font_bold = None,
                 font_color = Some 10526880\<rparr>]
              None]
           @ (case choose_visual vg kvs of
                None \<Rightarrow> []
              | Some f \<Rightarrow>
                  if f \<noteq> [] \<and> path_exists vg f
                  then [Picture (abspath vg f) (432, 180, 252, 252)] else []),
           None)"
    using layout_of_content [of style rgb1 rgb2 kvs pts vg] by blast
qed


lemma example_deck_slide: "show_running example_deck \<and> 1 \<le> (2::int)
    \<and> 2 \<le> int (length (slides example_deck))"
  by (simp add: example_deck_def)

lemma example_style_parses:
  "int16 (primary_color_rgb example_style) = Inr 0
   \<and> int16 (accent_color_rgb example_style) = Inr 5855577"
  by (simp add: example_style_def example_colours)

lemma example_chart_layout:
  "add_content_to_slide [] example_content (Some example_style) example_visuals =
     ([Textbox (36, 72 / 5, 396, 108)
         [\<lparr>run_text = JStr ''EV sales'', bullet_visible = None, font_name = Some ''Calibri'',
            font_size = Some 32, font_bold = Some (- 1), font_color = Some 0\<rparr>]
         (Some 1),
       Textbox (36, 648 / 5, 396, 360)
         [\<lparr>run_text = JStr (''Up 35%'' @ [CHR 0x0D, CHR 0x0A]), bullet_visible = Some (- 1),
            font_name = Some ''Calibri'', font_size = Some 18, font_bold = None,
            font_color = Some 5855577\<rparr>]
         (Some 1),
       Textbox (72 / 5, 2592 / 5, 144, 36)
         [\<lparr>run_text = JStr ''Updated live by Savi.ai'', bullet_visible = None,
            font_name = None, font_size = Some 10, font_bold = None,
            font_color = Some 10526880\<rparr>]
         None,
       Picture ''C:/savi/temp_visuals/temp_chart.png'' (432, 180, 252, 252)],
      None)"
proof -
  have p: "dict_get example_members ''points'' (JArr []) = JArr (map JStr [''Up 35%''])"
    by (simp add: dict_get_def example_members_def)
  have v: "choose_visual example_visuals example_members = Some ''temp_visuals/temp_chart.png''"
    by (simp add: choose_visual_def dict_get_def example_members_def example_visuals_def)
  have t: "dict_get example_members ''title'' (JStr ''New Topic'') = JStr ''EV sales''"
    by (simp add: dict_get_def example_members_def)
  show ?thesis
    unfolding example_content_def
    using example_style_parses p
    by (simp add: layout_of_content [where pts = "[''Up 35%'']"] v t path_truthy_def)
      (simp add: example_style_def example_visuals_def py_int_def)
qed

lemma example_image_layout:
  "add_content_to_slide [] (JObj example_image_members) (Some example_style) example_visuals =
     ([Textbox (36, 72 / 5, 648, 108)
         [\<lparr>run_text = JStr ''EV sales'', bullet_visible = None, font_name = Some ''Calibri'',
            font_size = Some 32, font_bold = Some (- 1), font_color = Some 0\<rparr>]
         (Some 2),
       Textbox (36, 648 / 5, 648, 360)
         [\<lparr>run_text = JStr (''Up 35%'' @ [CHR 0x0D, CHR 0x0A]), bullet_visible = Some (- 1),
            font_name = Some ''Calibri'', font_size = Some 18, font_bold = None,
            font_color = Some 5855577\<rparr>]
         (Some 1),
       Textbox (72 / 5, 2592 / 5, 144, 36)
         [\<lparr>run_text = JStr ''Updated live by Savi.ai'', bullet_visible = None,
            font_name = None, font_size = Some 10, font_bold = None,
            font_color = Some 10526880\<rparr>]
         None],
      None)"
  and example_icon_layout:
    "add_content_to_slide [] (JObj example_image_members) (Some example_style)
         example_visuals_icon =
     ([Textbox (36, 72 / 5, 396, 108)
         [\<lparr>run_text = JStr ''EV sales'', bullet_visible = None, font_name = Some ''Calibri'',
            font_size = Some 32, font_bold = Some (- 1), font_color = Some 0\<rparr>]
         (Some 1),
       Textbox (36, 648 / 5, 396, 360)
         [\<lparr>run_text = JStr (''Up 35%'' @ [CHR 0x0D, CHR 0x0A]), bullet_visible = Some (- 1),
            font_name = Some ''Calibri'', font_size = Some 18, font_bold = None,
            font_color = Some 5855577\<rparr>]
         (Some 1),
       Textbox (72 / 5, 2592 / 5, 144, 36)
         [\<lparr>run_text = JStr ''Updated live by Savi.ai'', bullet_visible = None,
            font_name = None, font_size = Some 10, font_bold = None,
            font_color = Some 10526880\<rparr>]
         None,
       Picture ''C:/savi/temp_visuals/temp_0.png'' (432, 180, 252, 252)],
      None)"
proof -
  have p: "dict_get example_image_members ''points'' (JArr []) = JArr (map JStr [''Up 35%''])"
    by (simp add: dict_get_def example_image_members_def)
  have v: "choose_visual example_visuals example_image_members = None"
    "choose_visual example_visuals_icon example_image_members = Some ''temp_visuals/temp_0.png''"
    by (simp_all add: choose_visual_def dict_get_def example_image_members_def
        example_visuals_def example_visuals_icon_def path_truthy_def)
  have t: "dict_get example_image_members ''title'' (JStr ''New Topic'') = JStr ''EV sales''"
    by (simp add: dict_get_def example_image_members_def)
  show "add_content_to_slide [] (JObj example_image_members) (Some example_style)
      example_visuals =
     ([Textbox (36, 72 / 5, 648, 108)
         [\<lparr>run_text = JStr ''EV sales'', bullet_visible = None, font_name = Some ''Calibri'',
            font_size = Some 32, font_bold = Some (- 1), font_color = Some 0\<rparr>]
         (Some 2),
       Textbox (36, 648 / 5, 648, 360)
         [\<lparr>run_text = JStr (''Up 35%'' @ [CHR 0x0D, CHR 0x0A]), bullet_visible = Some (- 1),
            font_name = Some ''Calibri'', font_size = Some 18, font_bold = None,
            font_color = Some 5855577\<rparr>]
         (Some 1),
       Textbox (72 / 5, 2592 / 5, 144, 36)
         [\<lparr>run_text = JStr ''Updated live by Savi.ai'', bullet_visible = None,
            font_name = None, font_size = Some 10, font_bold = None,
            font_color = Some 10526880\<rparr>]
         None],
      None)"
    using example_style_parses p
    by (simp add: layout_of_content [where pts = "[''Up 35%'']"] v t path_truthy_def)
      (simp add: example_style_def py_int_def)
  show "add_content_to_slide [] (JObj example_image_members) (Some example_style)
         example_visuals_icon =
     ([Textbox (36, 72 / 5, 396, 108)
         [\<lparr>run_text = JStr ''EV sales'', bullet_visible = None, font_name = Some ''Calibri'',
            font_size = Some 32, font_bold = Some (- 1), font_color = Some 0\<rparr>]
         (Some 1),
       Textbox (36, 648 / 5, 396, 360)
         [\<lparr>run_text = JStr (''Up 35%'' @ [CHR 0x0D, CHR 0x0A]), bullet_visible = Some (- 1),
            font_name = Some ''Calibri'', font_size = Some 18, font_bold = None,
            font_color = Some 5855577\<rparr>]
         (Some 1),
       Textbox (72 / 5, 2592 / 5, 144, 36)
         [\<lparr>run_text = JStr ''Updated live by Savi.ai'', bullet_visible = None,
            font_name = None, font_size = Some 10, font_bold = None,
            font_color = Some 10526880\<rparr>]
         None,
       Picture ''C:/savi/temp_visuals/temp_0.png'' (432, 180, 252, 252)],
      None)"
    using example_style_parses p
    by (simp add: layout_of_content [where pts = "[''Up 35%'']"] v t path_truthy_def)
      (simp add: example_style_def example_visuals_def example_visuals_icon_def py_int_def)
qed


theorem update_lays_out_afresh_witness:
  "show_running example_deck \<and> 1 \<le> (2::int) \<and> 2 \<le> int (length (slides example_deck))
   \<and> slides (fst (update_existing_slide
         (fst (update_existing_slide example_deck 2 example_content (Some example_style)
                 example_visuals))
         2 example_content (Some example_style) example_visuals))
       = slides (fst (update_existing_slide example_deck 2 example_content
                        (Some example_style) example_visuals))
   \<and> slides (fst (update_existing_slide
         (fst (update_existing_slide example_deck 2 example_content (Some example_style)
                 example_visuals))
         2 example_content (Some example_style) example_visuals)) ! nat (2 - 1)
       = [Textbox (36, 72 / 5, 396, 108)
            [\<lparr>run_text = JStr ''EV sales'', bullet_visible = None,
               font_name = Some ''Calibri'', font_size = Some 32, font_bold = Some (- 1),
               font_color = Some 0\<rparr>]
            (Some 1),
          Textbox (36, 648 / 5, 396, 360)
            [\<lparr>run_text = JStr (''Up 35%'' @ [CHR 0x0D, CHR 0x0A]),
               bullet_visible = Some (- 1), font_name = Some ''Calibri'',
               font_size = Some 18, font_bold = None, font_color = Some 5855577\<rparr>]
            (Some 1),
          Textbox (72 / 5, 2592 / 5, 144, 36)
            [\<lparr>run_text = JStr ''Updated live by Savi.ai'', bullet_visible = None,
               font_name = None, font_size = Some 10, font_bold = None,
               font_color = Some 10526880\<rparr>]
            None,
          Picture ''C:/savi/temp_visuals/temp_chart.png'' (432, 180, 252, 252)]"
proof -
  have same: "\<forall>kvs. example_content = JObj kvs \<longrightarrow>
      choose_visual example_visuals kvs = choose_visual example_visuals kvs
      \<and> add_picture example_visuals (choose_visual example_visuals kvs)
          = add_picture example_visuals (choose_visual example_visuals kvs)"
    by simp
  note t = update_lays_out_afresh [of example_deck 2 example_content "Some example_style"
      example_visuals example_visuals]
  from t example_deck_slide
  have "slides (fst (update_existing_slide
         (fst (update_existing_slide example_deck 2 example_content (Some example_style)
                 example_visuals))
         2 example_content (Some example_style) example_visuals)) ! nat (2 - 1)
       = fst (add_content_to_slide [] example_content (Some example_style) example_visuals)"
    by blast
  moreover from t same
  have "slides (fst (update_existing_slide
         (fst (update_existing_slide example_deck 2 example_content (Some example_style)
                 example_visuals))
         2 example_content (Some example_style) example_visuals))
       = slides (fst (update_existing_slide example_deck 2 example_content
                        (Some example_style) example_visuals))"
    by blast
  ultimately show ?thesis
    using example_deck_slide by (simp add: example_chart_layout)
qed

text \<open>The same content applied twice to slide 2, the icon service failing during the
  first update and answering during the second: three shapes with a centred title, then
  four shapes with the title on the left.\<close>

theorem update_follows_the_lookup:
  "slides (fst (update_existing_slide example_deck 2 (JObj example_image_members)
                  (Some example_style) example_visuals)) ! 1
     = [Textbox (36, 72 / 5, 648, 108)
          [\<lparr>run_text = JStr ''EV sales'', bullet_visible = None, font_name = Some ''Calibri'',
             font_size = Some 32, font_bold = Some (- 1), font_color = Some 0\<rparr>]
          (Some 2),
        Textbox (36, 648 / 5, 648, 360)
          [\<lparr>run_text = JStr (''Up 35%'' @ [CHR 0x0D, CHR 0x0A]), bullet_visible = Some (- 1),
             font_name = Some ''Calibri'', font_size = Some 18, font_bold = None,
             font_color = Some 5855577\<rparr>]
          (Some 1),
        Textbox (72 / 5, 2592 / 5, 144, 36)
          [\<lparr>run_text = JStr ''Updated live by Savi.ai'', bullet_visible = None,
             font_name = None, font_size = Some 10, font_bold = None,
             font_color = Some 10526880\<rparr>]
          None]
   \<and> slides (fst (update_existing_slide
         (fst (update_existing_slide example_deck 2 (JObj example_image_members)
                 (Some example_style) example_visuals))
         2 (JObj example_image_members) (Some example_style) example_visuals_icon)) ! 1
     = [Textbox (36, 72 / 5, 396, 108)
          [\<lparr>run_text = JStr ''EV sales'', bullet_visible = None, font_name = Some ''Calibri'',
             font_size = Some 32, font_bold = Some (- 1), font_color = Some 0\<rparr>]
          (Some 1),
        Textbox (36, 648 / 5, 396, 360)
          [\<lparr>run_text = JStr (''Up 35%'' @ [CHR 0x0D, CHR 0x0A]), bullet_visible = Some (- 1),
             font_name = Some ''Calibri'', font_size = Some 18, font_bold = None,
             font_color = Some 5855577\<rparr>]
          (Some 1),
        Textbox (72 / 5, 2592 / 5, 144, 36)
          [\<lparr>run_text = JStr ''Updated live by Savi.ai'', bullet_visible = None,
             font_name = None, font_size = Some 10, font_bold = None,
             font_color = Some 10526880\<rparr>]
          None,
        Picture ''C:/savi/temp_visuals/temp_0.png'' (432, 180, 252, 252)]
   \<and> slides (fst (update_existing_slide
         (fst (update_existing_slide example_deck 2 (JObj example_image_members)
                 (Some example_style) example_visuals))
         2 (JObj example_image_members) (Some example_style) example_visuals_icon))
     \<noteq> slides (fst (update_existing_slide example_deck 2 (JObj example_image_members)
                       (Some example_style) example_visuals))"
proof -
  let ?p1 = "fst (update_existing_slide example_deck 2 (JObj example_image_members)
                 (Some example_style) example_visuals)"
  have d: "show_running example_deck" "1 \<le> (2::int)" "2 \<le> int (length (slides example_deck))"
    using example_deck_slide by simp_all
  have s1: "slides ?p1 = (slides example_deck)[nat (2 - 1) :=
      fst (add_content_to_slide [] (JObj example_image_members) (Some example_style)
             example_visuals)]"
    and r1: "show_running ?p1"
    using d by (rule update_slides)+
  have l1: "2 \<le> int (length (slides ?p1))"
    using d by (simp add: s1)
  have s2: "slides (fst (update_existing_slide ?p1 2 (JObj example_image_members)
        (Some example_style) example_visuals_icon))
      = (slides ?p1)[nat (2 - 1) :=
      fst (add_content_to_slide [] (JObj example_image_members) (Some example_style)
             example_visuals_icon)]"
    using r1 d(2) l1 by (rule update_slides)
  have len: "length (slides example_deck) = 2"
    by (simp add: example_deck_def)
  have a: "slides ?p1 ! 1 = fst (add_content_to_slide [] (JObj example_image_members)
      (Some example_style) example_visuals)"
    unfolding s1 by (simp add: len)
  have b: "slides (fst (update_existing_slide ?p1 2 (JObj example_image_members)
        (Some example_style) example_visuals_icon)) ! 1
      = fst (add_content_to_slide [] (JObj example_image_members)
          (Some example_style) example_visuals_icon)"
    unfolding s2 s1 by (simp add: len)
  have "slides (fst (update_existing_slide ?p1 2 (JObj example_image_members)
        (Some example_style) example_visuals_icon)) ! 1 \<noteq> slides ?p1 ! 1"
    unfolding a b by (simp add: example_image_layout example_icon_layout)
  then have "slides (fst (update_existing_slide ?p1 2 (JObj example_image_members)
        (Some example_style) example_visuals_icon)) \<noteq> slides ?p1"
    by auto
  then show ?thesis
    using a b by (simp add: example_image_layout example_icon_layout)
qed

section \<open>Properties of the insert path\<close>

text \<open>
  Claim C3, on the code.  An insert asked for at slide 1 when the show is no longer
  running: the content is generated, \<^verbatim>\<open>insert_new_slide_after_current\<close> prints that it
  found no active presentation and returns, the deck is what it was, and index 2 is in the
  tracked slides all the same, since line 239 follows the call whatever its end.
\<close>

theorem failed_insert_is_tracked:
  "snd (insert_new_slide_after_current (example_deck\<lparr>show_running := False\<rparr>) 1
          example_content (Some example_style) example_visuals) = NoActivePresentation
   \<and> generate_slide_content example_loads (reply_both ''EV sales'') = Some example_content
   \<and> ppt (generate_and_apply example_loads reply_both example_visuals
            (''EV sales'', 1, False, ''Inserting'')
            (example_app\<lparr>ppt := example_deck\<lparr>show_running := False\<rparr>\<rparr>))
       = example_deck\<lparr>show_running := False\<rparr>
   \<and> generated_slide_indices (example_app\<lparr>ppt := example_deck\<lparr>show_running := False\<rparr>\<rparr>) = {}
   \<and> generated_slide_indices (generate_and_apply example_loads reply_both example_visuals
            (''EV sales'', 1, False, ''Inserting'')
            (example_app\<lparr>ppt := example_deck\<lparr>show_running := False\<rparr>\<rparr>))
       = {2}"
proof -
  have t: "truthy example_content"
    by (simp add: example_content_def example_members_def)
  have i: "insert_new_slide_after_current (example_deck\<lparr>show_running := False\<rparr>) 1
          example_content (Some example_style) example_visuals
       = (example_deck\<lparr>show_running := False\<rparr>, NoActivePresentation)"
    by (simp add: insert_new_slide_after_current_def)
  show ?thesis
    by (simp add: generate_and_apply_def reply_both_content t i set_status_def Let_def
        example_app_def)
qed

section \<open>Properties of the visual choice\<close>

text \<open>
  Claim C6, as the code has it.  \<^verbatim>\<open>generate_slide_content\<close> returns the object that
  \<^verbatim>\<open>json.loads\<close> gave, unchanged and unchecked.  The slide builder uses one visual at most:
  with a truthy \<^verbatim>\<open>chart_data\<close> it asks for the chart and never reads
  \<^verbatim>\<open>image_suggestion\<close>; otherwise a truthy \<^verbatim>\<open>image_suggestion\<close> gives the icon or, failing
  that, the image.  The value of \<^verbatim>\<open>layout\<close> changes nothing on the slide.
\<close>

theorem builder_prefers_chart:
  "(generate_slide_content loads r = Some c \<longrightarrow>
      truthy c \<and> (\<exists>answer. r = Inr answer \<and> extract_json_try loads answer = Inr c))
   \<and> (truthy (dict_get kvs ''chart_data'' JNull) \<longrightarrow>
        choose_visual vg kvs = create_chart vg (dict_get kvs ''chart_data'' JNull))
   \<and> (\<not> truthy (dict_get kvs ''chart_data'' JNull) \<longrightarrow>
        choose_visual vg kvs =
          (if truthy (dict_get kvs ''image_suggestion'' JNull)
           then (if path_truthy (get_icon vg (dict_get kvs ''image_suggestion'' JNull))
                 then get_icon vg (dict_get kvs ''image_suggestion'' JNull)
                 else get_image vg (dict_get kvs ''image_suggestion'' JNull))
           else None))
   \<and> add_content_to_slide shapes (JObj ((''layout'', l) # kvs)) sg vg
       = add_content_to_slide shapes (JObj ((''layout'', l') # kvs)) sg vg"
proof (intro conjI impI)
  assume "generate_slide_content loads r = Some c"
  then show "truthy c"
    and "\<exists>answer. r = Inr answer \<and> extract_json_try loads answer = Inr c"
    using generate_some [of loads r c] by blast+
next
  assume "truthy (dict_get kvs ''chart_data'' JNull)"
  then show "choose_visual vg kvs = create_chart vg (dict_get kvs ''chart_data'' JNull)"
    by (simp add: choose_visual_def)
next
  assume "\<not> truthy (dict_get kvs ''chart_data'' JNull)"
  then show "choose_visual vg kvs =
          (if truthy (dict_get kvs ''image_suggestion'' JNull)
           then (if path_truthy (get_icon vg (dict_get kvs ''image_suggestion'' JNull))
                 then get_icon vg (dict_get kvs ''image_suggestion'' JNull)
                 else get_image vg (dict_get kvs ''image_suggestion'' JNull))
           else None)"
    by (simp add: choose_visual_def Let_def)
next
  have g: "k \<noteq> ''layout'' \<Longrightarrow> dict_get ((''layout'', x) # kvs) k d = dict_get kvs k d" for k x d
    by (simp add: dict_get_def)
  have v: "choose_visual vg ((''layout'', x) # kvs) = choose_visual vg kvs" for x
    by (simp add: choose_visual_def g Let_def)
  have t: "add_title ((''layout'', x) # kvs) sg vp w = add_title kvs sg vp w" for x vp w
    by (simp add: add_title_def g)
  have b: "add_body ((''layout'', x) # kvs) st w = add_body kvs st w" for x st w
    by (simp add: add_body_def g)
  show "add_content_to_slide shapes (JObj ((''layout'', l) # kvs)) sg vg
       = add_content_to_slide shapes (JObj ((''layout'', l') # kvs)) sg vg"
    by (simp add: add_content_to_slide_def v t b Let_def split: prod.splits option.splits)
qed

theorem builder_prefers_chart_witness:
  "truthy (dict_get example_members ''chart_data'' JNull)
   \<and> choose_visual example_visuals example_members = Some ''temp_visuals/temp_chart.png''
   \<and> \<not> truthy (dict_get [(''image_suggestion'', JStr ''car'')] ''chart_data'' JNull)
   \<and> choose_visual example_visuals [(''image_suggestion'', JStr ''car'')] = None
   \<and> truthy example_content"
proof -
  have 1: "truthy (dict_get example_members ''chart_data'' JNull)"
    by (simp add: dict_get_def example_members_def)
  have 2: "\<not> truthy (dict_get [(''image_suggestion'', JStr ''car'')] ''chart_data'' JNull)"
    by (simp add: dict_get_def)
  have 3: "create_chart example_visuals x = Some ''temp_visuals/temp_chart.png''"
    "get_icon example_visuals x = None" "get_image example_visuals x = None" for x
    by (simp_all add: example_visuals_def)
  have 4: "generate_slide_content example_loads (reply_both ''EV sales'') = Some example_content"
    by (rule reply_both_content)
  show ?thesis
    using 1 2 4
      builder_prefers_chart [of example_loads "reply_both ''EV sales''" example_content
        example_members example_visuals]
      builder_prefers_chart [of example_loads "reply_both ''EV sales''" example_content
        "[(''image_suggestion'', JStr ''car'')]" example_visuals]
    by (simp add: 3 path_truthy_def)
qed

text \<open>A content with a chart specification, an image suggestion and the layout
  \<^verbatim>\<open>text_only\<close> comes out of content generation and goes through the slide builder.\<close>

theorem chart_and_image_together:
  "generate_slide_content example_loads (reply_both ''EV sales'') = Some (JObj example_members)
   \<and> dict_get example_members ''chart_data'' JNull \<noteq> JNull
   \<and> dict_get example_members ''image_suggestion'' JNull \<noteq> JNull
   \<and> dict_get example_members ''layout'' JNull = JStr ''text_only''
   \<and> snd (add_content_to_slide [] (JObj example_members) (Some example_style) example_visuals)
       = None"
proof -
  have "snd (add_content_to_slide [] (JObj example_members) (Some example_style)
      example_visuals) = None"
    using example_chart_layout by (simp add: example_content_def)
  moreover have "generate_slide_content example_loads (reply_both ''EV sales'')
      = Some (JObj example_members)"
    using reply_both_content [of "''EV sales''"] by (simp add: example_content_def)
  ultimately show ?thesis
    by (simp add: dict_get_def example_members_def)
qed

section \<open>Properties of the slide text\<close>




section \<open>Properties of the threads\<close>

lemma fire_keeps_flag:
  assumes "check_threads s = (if flag_checking s then 1 else 0)" and "fire e s = Some s'"
  shows "check_threads s' = (if flag_checking s' then 1 else 0)"
  using assms
  by (cases e) (auto simp: periodic_check_def start_apply_def Let_def split: if_splits)

lemma fire_all_keeps_flag:
  assumes "check_threads s = (if flag_checking s then 1 else 0)" and "fire_all es s = Some s'"
  shows "check_threads s' = (if flag_checking s' then 1 else 0)"
  using assms
proof (induction es arbitrary: s)
  case Nil
  then show ?case by simp
next
  case (Cons e es)
  then obtain t where t: "fire e s = Some t" and r: "fire_all es t = Some s'"
    by (auto split: option.splits)
  from Cons.prems(1) t have "check_threads t = (if flag_checking t then 1 else 0)"
    by (rule fire_keeps_flag)
  then show ?case using r by (rule Cons.IH)
qed

text \<open>
  Claim C1, as the code has it.  In every state that the threads can reach, at most one
  thread is on \<^verbatim>\<open>run_deviation_check\<close>: that is what \<^verbatim>\<open>is_checking\<close> orders.  Nothing orders
  the threads on \<^verbatim>\<open>_generate_and_apply\<close>: in every such state the button starts one more
  of them at once, and so does a check that returns with a topic, whatever the threads
  started before are doing; none waits and none is turned away.
\<close>

theorem only_checks_are_serialised:
  assumes "fire_all es idle = Some s"
  shows "check_threads s \<le> 1
         \<and> fire Manual_generate s = Some (s\<lparr>apply_threads := apply_threads s @ [Generating]\<rparr>)
         \<and> (check_threads s = 1 \<longrightarrow>
              fire (Check_returns True) s
                = Some (s\<lparr>apply_threads := apply_threads s @ [Generating],
                          flag_checking := False, check_threads := 0\<rparr>))"
proof -
  have "check_threads idle = (if flag_checking idle then 1 else 0)"
    by (simp add: idle_def)
  then have "check_threads s = (if flag_checking s then 1 else 0)"
    using assms by (rule fire_all_keeps_flag)
  then show ?thesis
    by (simp add: start_apply_def)
qed

theorem only_checks_are_serialised_witness:
  "fire_all [Start_processing, Check_returns True, Content_returns 0 True, Periodic_check] idle
     = Some \<lparr>flag_running = True, flag_checking = True, check_threads = 1,
             apply_threads = [Mutating]\<rparr>
   \<and> fire (Check_returns True)
        \<lparr>flag_running = True, flag_checking = True, check_threads = 1,
         apply_threads = [Mutating]\<rparr>
     = Some \<lparr>flag_running = True, flag_checking = False, check_threads = 0,
             apply_threads = [Mutating, Generating]\<rparr>"
proof -
  have r: "fire_all [Start_processing, Check_returns True, Content_returns 0 True,
      Periodic_check] idle
     = Some \<lparr>flag_running = True, flag_checking = True, check_threads = 1,
             apply_threads = [Mutating]\<rparr>"
    by (simp add: idle_def periodic_check_def start_apply_def)
  from only_checks_are_serialised [OF r] r show ?thesis by simp
qed

text \<open>An automatic update and a manual one, asked for while the first generates its
  content: both threads are in the slide updater at once.\<close>

theorem two_runs_mutate_at_once:
  "fire_all [Start_processing, Check_returns True, Manual_generate, Content_returns 0 True,
             Content_returns 1 True] idle
     = Some \<lparr>flag_running = True, flag_checking = False, check_threads = 0,
             apply_threads = [Mutating, Mutating]\<rparr>
   \<and> mutating \<lparr>flag_running = True, flag_checking = False, check_threads = 0,
               apply_threads = [Mutating, Mutating]\<rparr> = 2"
  by (simp add: idle_def periodic_check_def start_apply_def mutating_def)

end
